theory Spec2Isabelle
  imports Complex_Main "HOL-Library.Word" "HOL-Library.Sublist" "HOL-Library.Log_Nat"
begin

section \<open>JavaScript values used by the MCP server\<close>

text \<open>
  The server of \<^verbatim>\<open>mcp-server/src/index.ts\<close> works on JavaScript strings, which are
  sequences of UTF-16 code units, and on JavaScript numbers. Strings are lists of
  16-bit words here. The counts the heuristics produce are naturals. The arithmetic of
  the benchmark simulation is given twice: in exact real arithmetic, and with the
  rounding of IEEE doubles after every operation, as the source runs it.
\<close>

type_synonym code_unit = "16 word"
type_synonym jsstring = "code_unit list"

definition lit :: "string \<Rightarrow> jsstring" where
  "lit s = map of_char s"

text \<open>\<^verbatim>\<open>String.prototype.includes\<close>: the pattern occurs as a contiguous substring.\<close>

fun str_includes :: "jsstring \<Rightarrow> jsstring \<Rightarrow> bool" where
  "str_includes [] pat = (pat = [])"
| "str_includes (c # cs) pat = (prefix pat (c # cs) \<or> str_includes cs pat)"

subsection \<open>The two regular expressions\<close>

text \<open>
  The class \<^verbatim>\<open>\s\<close> of ECMAScript (without the unicode flag it is tested on single
  code units): white space and line terminators.
\<close>

definition white_space :: "code_unit \<Rightarrow> bool" where
  "white_space c =
     (c \<in> set [0x09, 0x0A, 0x0B, 0x0C, 0x0D, 0x20, 0xA0, 0x1680, 0x2028, 0x2029,
               0x202F, 0x205F, 0x3000, 0xFEFF]
      \<or> (0x2000 \<le> c \<and> c \<le> 0x200A))"

definition not_closing_brace :: "code_unit \<Rightarrow> bool" where
  "not_closing_brace c = (c \<noteq> of_char CHR ''}'')"

text \<open>
  Both expressions are alternatives of sequences of two kinds of atoms: a literal, and
  a greedy \<^verbatim>\<open>*\<close> over a character class. \<open>match_seq\<close> is the backtracking matcher
  anchored at the start of its input; it returns the input left after the match. A
  greedy star first takes the character and gives it back when the rest fails.
\<close>

datatype atom = Lit jsstring | Star "code_unit \<Rightarrow> bool"

type_synonym regex = "atom list list"

fun match_seq :: "atom list \<Rightarrow> jsstring \<Rightarrow> jsstring option" where
  "match_seq [] s = Some s"
| "match_seq (Lit l # as) s =
     (if prefix l s then match_seq as (drop (length l) s) else None)"
| "match_seq (Star P # as) [] = match_seq as []"
| "match_seq (Star P # as) (c # cs) =
     (if P c then
        (case match_seq (Star P # as) cs of
           Some r \<Rightarrow> Some r
         | None \<Rightarrow> match_seq as (c # cs))
      else match_seq as (c # cs))"

fun match_alts :: "regex \<Rightarrow> jsstring \<Rightarrow> jsstring option" where
  "match_alts [] s = None"
| "match_alts (a # alts) s =
     (case match_seq a s of Some r \<Rightarrow> Some r | None \<Rightarrow> match_alts alts s)"

text \<open>
  \<^verbatim>\<open>(code.match(re) || []).length\<close> for a regular expression with the \<^verbatim>\<open>g\<close> flag:
  the number of matches found scanning from left to right, each search starting where
  the previous match ended (one code unit further after an empty match).
\<close>

fun match_count :: "regex \<Rightarrow> jsstring \<Rightarrow> nat" where
  "match_count re [] = (case match_alts re [] of Some r \<Rightarrow> 1 | None \<Rightarrow> 0)"
| "match_count re (c # cs) =
     (case match_alts re (c # cs) of
        None \<Rightarrow> match_count re cs
      | Some r \<Rightarrow>
          (if length r < length (c # cs) then 1 + match_count re r
           else 1 + match_count re cs))"

text \<open>\<^verbatim>\<open>/for\s*\(|while\s*\(/g\<close>\<close>

definition loop_regex :: regex where
  "loop_regex =
     [[Lit (lit ''for''), Star white_space, Lit (lit ''('')],
      [Lit (lit ''while''), Star white_space, Lit (lit ''('')]]"

text \<open>\<^verbatim>\<open>/for\s*\([^}]*for\s*\(/g\<close>\<close>

definition nested_regex :: regex where
  "nested_regex =
     [[Lit (lit ''for''), Star white_space, Lit (lit ''(''),
       Star not_closing_brace,
       Lit (lit ''for''), Star white_space, Lit (lit ''('')]]"

section \<open>Complexity Analyzer\<close>

record ComplexityResult =
  time_complexity :: jsstring
  space_complexity :: jsstring
  loop_count :: nat
  nested_loops :: nat
  recursive_calls :: nat
  complexity_score :: nat

definition O_1 :: jsstring where
  "O_1 = lit ''O(1)''"

definition O_n :: jsstring where
  "O_n = lit ''O(n)''"

text \<open>The string \<^verbatim>\<open>O(n^2)\<close> with the superscript two, code unit \<open>0xB2\<close>.\<close>

definition O_n_squared :: jsstring where
  "O_n_squared = lit ''O(n'' @ [0xB2] @ lit '')''"

definition performComplexityAnalysis :: "jsstring \<Rightarrow> jsstring \<Rightarrow> ComplexityResult" where
  "performComplexityAnalysis code language =
     (let loopCount = match_count loop_regex code;
          nestedLoops = match_count nested_regex code;
          recursiveCall =
            (if str_includes code (lit ''return'') \<and> str_includes code (lit ''('')
             then 1 else 0 :: nat);
          timeComplexity =
            (if nestedLoops > 0 then O_n_squared
             else if loopCount > 0 then O_n
             else if recursiveCall > 0 then O_n
             else O_1)
      in \<lparr> time_complexity = timeComplexity,
           space_complexity = (if nestedLoops > 0 then O_n else O_1),
           loop_count = loopCount,
           nested_loops = nestedLoops,
           recursive_calls = recursiveCall,
           complexity_score = loopCount + nestedLoops * 2 + recursiveCall \<rparr>)"

definition estimateComplexity :: "jsstring \<Rightarrow> nat" where
  "estimateComplexity code =
     (let loopCount = match_count loop_regex code;
          nestedLoops = match_count nested_regex code
      in 1 + loopCount + nestedLoops * 2)"

section \<open>Pattern Detector\<close>

record Applicability =
  score :: real
  difficulty :: jsstring
  estimatedImprovement :: real
  indicators :: "jsstring list"
  hint :: jsstring

definition assessPatternApplicability :: "jsstring \<Rightarrow> jsstring \<Rightarrow> jsstring \<Rightarrow> Applicability" where
  "assessPatternApplicability code pattern language =
     (if pattern = lit ''dynamic_programming'' then
        (let hasRecursion = (str_includes code (lit ''return'') \<and> str_includes code (lit ''(''));
             hasOverlapping = (str_includes code (lit ''memo'') \<or> hasRecursion)
         in \<lparr> score = (if hasOverlapping then 0.8 else 0.2),
              difficulty = lit ''medium'',
              estimatedImprovement = 40,
              indicators =
                (if hasOverlapping then [lit ''recursion'', lit ''overlapping_subproblems'']
                 else []),
              hint = lit ''Look for overlapping subproblems and optimal substructure'' \<rparr>)
      else if pattern = lit ''caching'' then
        (let hasLookups = (str_includes code (lit ''find'') \<or> str_includes code (lit ''indexOf''))
         in \<lparr> score = (if hasLookups then 0.9 else 0.3),
              difficulty = lit ''low'',
              estimatedImprovement = 60,
              indicators = (if hasLookups then [lit ''repeated_lookups''] else []),
              hint = lit ''Cache frequently accessed data'' \<rparr>)
      else
        \<lparr> score = 0.5,
          difficulty = lit ''medium'',
          estimatedImprovement = 25,
          indicators = [],
          hint = lit ''Pattern analysis available'' \<rparr>)"

section \<open>Environment of a handler\<close>

text \<open>
  The handlers read two things from their environment: \<^verbatim>\<open>Math.random()\<close> and the
  clock (\<^verbatim>\<open>new Date().toISOString()\<close>). The world carries the sequence of numbers
  \<^verbatim>\<open>Math.random\<close> is going to return together with the number of draws made so far,
  and the timestamp the clock shows.
\<close>

record world =
  random_stream :: "nat \<Rightarrow> real"
  random_pos :: nat
  clock :: jsstring

definition Math_random :: "world \<Rightarrow> real \<times> world" where
  "Math_random w = (random_stream w (random_pos w), w\<lparr>random_pos := Suc (random_pos w)\<rparr>)"

definition Date_toISOString :: "world \<Rightarrow> jsstring" where
  "Date_toISOString w = clock w"

text \<open>
  What a JavaScript \<^verbatim>\<open>throw\<close> can carry, as far as the dispatcher tells the cases
  apart: an \<^verbatim>\<open>McpError\<close> (error code and the message given to its constructor),
  any other instance of \<^verbatim>\<open>Error\<close> (its \<^verbatim>\<open>message\<close>), or a value that is not an
  \<^verbatim>\<open>Error\<close> (with what \<^verbatim>\<open>String(error)\<close> yields for it).
\<close>

datatype ErrorCode = MethodNotFound | InternalError

datatype thrown =
    McpError ErrorCode jsstring
  | JsError jsstring
  | NonError jsstring

text \<open>
  A handler takes the arguments of the request and the world. It returns the new world
  and either what it throws or its payload: the object it serialises with
  \<^verbatim>\<open>JSON.stringify\<close> into the text of its response.
\<close>

type_synonym ('a, 'r) handler = "'a \<Rightarrow> world \<Rightarrow> (thrown + 'r) \<times> world"

section \<open>Schema Registry and Dispatcher\<close>

text \<open>The names of the tools the \<^verbatim>\<open>ListTools\<close> handler advertises, in its order.\<close>

definition tool_names :: "jsstring list" where
  "tool_names =
     [lit ''analyze_code_complexity'', lit ''benchmark_performance'',
      lit ''detect_optimization_patterns'', lit ''generate_test_cases'',
      lit ''create_optimization_report'']"

text \<open>
  The five handler methods of the server. The dispatcher passes the arguments of the
  request on as they are (the casts of the source do nothing at run time), so the
  table is kept general in the type of the arguments and of the payload.
\<close>

record ('a, 'r) handlers =
  analyzeCodeComplexity :: "('a, 'r) handler"
  benchmarkPerformance_method :: "('a, 'r) handler"
  detectOptimizationPatterns_method :: "('a, 'r) handler"
  generateTestCases :: "('a, 'r) handler"
  createOptimizationReport :: "('a, 'r) handler"

text \<open>The \<^verbatim>\<open>switch (name)\<close> of the \<^verbatim>\<open>CallTool\<close> request handler, inside its \<^verbatim>\<open>try\<close>.\<close>

definition switch_name :: "('a, 'r) handlers \<Rightarrow> jsstring \<Rightarrow> ('a, 'r) handler" where
  "switch_name hs name args w =
     (if name = lit ''analyze_code_complexity'' then analyzeCodeComplexity hs args w
      else if name = lit ''benchmark_performance'' then benchmarkPerformance_method hs args w
      else if name = lit ''detect_optimization_patterns'' then
        detectOptimizationPatterns_method hs args w
      else if name = lit ''generate_test_cases'' then generateTestCases hs args w
      else if name = lit ''create_optimization_report'' then createOptimizationReport hs args w
      else (Inl (McpError MethodNotFound (lit ''Tool '' @ name @ lit '' not found'')), w))"

text \<open>The \<^verbatim>\<open>catch (error)\<close> block.\<close>

definition catch_error :: "jsstring \<Rightarrow> thrown \<Rightarrow> thrown" where
  "catch_error name error =
     (case error of
        McpError c m \<Rightarrow> McpError c m
      | JsError message \<Rightarrow>
          McpError InternalError (lit ''Error executing tool '' @ name @ lit '': '' @ message)
      | NonError str \<Rightarrow>
          McpError InternalError (lit ''Error executing tool '' @ name @ lit '': '' @ str))"

definition CallTool :: "('a, 'r) handlers \<Rightarrow> jsstring \<Rightarrow> ('a, 'r) handler" where
  "CallTool hs name args w =
     (case switch_name hs name args w of
        (Inl error, w') \<Rightarrow> (Inl (catch_error name error), w')
      | (Inr response, w') \<Rightarrow> (Inr response, w'))"

text \<open>The method a \<^verbatim>\<open>case\<close> label of the switch calls, if the name has one.\<close>

definition selected_method :: "('a, 'r) handlers \<Rightarrow> jsstring \<Rightarrow> ('a, 'r) handler option" where
  "selected_method hs name =
     (if name = lit ''analyze_code_complexity'' then Some (analyzeCodeComplexity hs)
      else if name = lit ''benchmark_performance'' then Some (benchmarkPerformance_method hs)
      else if name = lit ''detect_optimization_patterns'' then
        Some (detectOptimizationPatterns_method hs)
      else if name = lit ''generate_test_cases'' then Some (generateTestCases hs)
      else if name = lit ''create_optimization_report'' then Some (createOptimizationReport hs)
      else None)"

section \<open>Pattern Detector: the handler\<close>

record OptimizationPatternRequest =
  code_snippet :: jsstring
  language :: jsstring
  pattern_types :: "jsstring list option"

record PatternResult =
  pattern_name :: jsstring
  applicability_score :: real
  implementation_difficulty :: jsstring
  estimated_improvement :: real
  code_indicators :: "jsstring list"
  implementation_hint :: jsstring

text \<open>
  The payload of the response. Each entry of \<^verbatim>\<open>pattern_recommendations\<close> is kept
  with its \<^verbatim>\<open>pattern\<close> field only; its two other fields are texts formatted from
  the same result.
\<close>

record PatternReport =
  analysis_timestamp :: jsstring
  report_language :: jsstring
  code_length :: nat
  detected_patterns :: "PatternResult list"
  pattern_recommendations :: "jsstring list"
  mcp_server_confidence :: jsstring

definition default_pattern_types :: "jsstring list" where
  "default_pattern_types =
     [lit ''dynamic_programming'', lit ''caching'', lit ''two_pointers'',
      lit ''sliding_window'', lit ''hash_maps'']"

text \<open>The body of the callback given to \<^verbatim>\<open>pattern_types.map\<close>.\<close>

definition pattern_result :: "jsstring \<Rightarrow> jsstring \<Rightarrow> jsstring \<Rightarrow> PatternResult" where
  "pattern_result snippet lang pattern =
     (let applicability = assessPatternApplicability snippet pattern lang
      in \<lparr> pattern_name = pattern,
           applicability_score = score applicability,
           implementation_difficulty = difficulty applicability,
           estimated_improvement = estimatedImprovement applicability,
           code_indicators = indicators applicability,
           implementation_hint = hint applicability \<rparr>)"

text \<open>
  \<^verbatim>\<open>Array.prototype.sort\<close> is stable and sorts the array it is called on, so the
  array stored under \<^verbatim>\<open>detected_patterns\<close> is the sorted one when the response is
  serialised. With the comparison \<^verbatim>\<open>b.applicability_score - a.applicability_score\<close>
  the order is descending in the score.
\<close>

definition sort_by_score_desc :: "PatternResult list \<Rightarrow> PatternResult list" where
  "sort_by_score_desc ps = sort_key (\<lambda>p. - applicability_score p) ps"

definition detectOptimizationPatterns :: "(OptimizationPatternRequest, PatternReport) handler" where
  "detectOptimizationPatterns request w =
     (let code_snippet' = code_snippet request;
          language' = language request;
          pattern_types' =
            (case pattern_types request of None \<Rightarrow> default_pattern_types | Some ps \<Rightarrow> ps);
          detectedPatterns =
            filter (\<lambda>p. applicability_score p > 0.3)
              (map (pattern_result code_snippet' language') pattern_types');
          sorted = sort_by_score_desc detectedPatterns
      in (Inr \<lparr> analysis_timestamp = Date_toISOString w,
                report_language = language',
                code_length = length code_snippet',
                detected_patterns = sorted,
                pattern_recommendations = map pattern_name (take 3 sorted),
                mcp_server_confidence =
                  (if length detectedPatterns > 0 then lit ''high'' else lit ''medium'') \<rparr>,
          w))"

section \<open>Benchmark Simulator\<close>

record CodeVariant =
  name :: jsstring
  code :: jsstring
  description :: "jsstring option"

record PerformanceBenchmarkRequest =
  original_code :: jsstring
  optimized_variants :: "CodeVariant list"
  benchmark_language :: jsstring
  test_iterations :: "real option"

record BenchmarkResult =
  variant_name :: jsstring
  variant_description :: "jsstring option"
  execution_time_ms :: real
  memory_usage_mb :: real
  improvement_percentage :: real
  variant_complexity_score :: nat
  result_test_iterations :: real
  benchmark_quality :: jsstring

record PerformanceSummary =
  total_variants_tested :: nat
  average_improvement :: real
  best_improvement :: real
  mcp_server_analysis :: bool

record BenchmarkReport =
  benchmark_timestamp :: jsstring
  benchmark_report_language :: jsstring
  report_test_iterations :: real
  original_code_complexity :: nat
  variant_results :: "BenchmarkResult list"
  best_variant :: BenchmarkResult
  performance_summary :: PerformanceSummary

text \<open>\<^verbatim>\<open>baselineComplexity / Math.max(variantComplexity, 0.1)\<close>\<close>

definition improvementFactor :: "nat \<Rightarrow> nat \<Rightarrow> real" where
  "improvementFactor baselineComplexity variantComplexity =
     real baselineComplexity / max (real variantComplexity) 0.1"

text \<open>
  The body of the callback given to \<^verbatim>\<open>optimized_variants.map\<close>, in exact
  arithmetic.
\<close>

definition benchmark_variant ::
  "jsstring \<Rightarrow> real \<Rightarrow> CodeVariant \<Rightarrow> world \<Rightarrow> BenchmarkResult \<times> world" where
  "benchmark_variant original_code' test_iterations' variant w =
     (let baselineComplexity = estimateComplexity original_code';
          variantComplexity = estimateComplexity (code variant);
          improvementFactor' = improvementFactor baselineComplexity variantComplexity;
          (U, w') = Math_random w;
          simulatedExecutionTime = (1.0 / improvementFactor') * (0.8 + U * 0.4);
          memoryImprovement = max 0 ((improvementFactor' - 1) * 30)
      in (\<lparr> variant_name = name variant,
            variant_description = description variant,
            execution_time_ms = simulatedExecutionTime,
            memory_usage_mb = max 0.5 (10 - memoryImprovement),
            improvement_percentage = max (- 20) ((1 - simulatedExecutionTime) * 100),
            variant_complexity_score = variantComplexity,
            result_test_iterations = test_iterations',
            benchmark_quality = lit ''mcp_server_simulated'' \<rparr>,
          w'))"

fun benchmark_variants ::
  "jsstring \<Rightarrow> real \<Rightarrow> CodeVariant list \<Rightarrow> world \<Rightarrow> BenchmarkResult list \<times> world" where
  "benchmark_variants original_code' test_iterations' [] w = ([], w)"
| "benchmark_variants original_code' test_iterations' (variant # variants) w =
     (let (r, w') = benchmark_variant original_code' test_iterations' variant w;
          (rs, w'') = benchmark_variants original_code' test_iterations' variants w'
      in (r # rs, w''))"

text \<open>
  \<^verbatim>\<open>Array.prototype.reduce\<close> without an initial value: on an empty array it throws a
  \<^verbatim>\<open>TypeError\<close> (the message is the one of V8, the engine of Node.js); otherwise the
  first element is the initial accumulator.
\<close>

definition reduce_no_initial :: "('a \<Rightarrow> 'a \<Rightarrow> 'a) \<Rightarrow> 'a list \<Rightarrow> thrown + 'a" where
  "reduce_no_initial f xs =
     (case xs of
        [] \<Rightarrow> Inl (JsError (lit ''Reduce of empty array with no initial value''))
      | x # rest \<Rightarrow> Inr (foldl f x rest))"

definition better :: "BenchmarkResult \<Rightarrow> BenchmarkResult \<Rightarrow> BenchmarkResult" where
  "better best current =
     (if improvement_percentage current > improvement_percentage best then current else best)"

definition benchmarkPerformance :: "(PerformanceBenchmarkRequest, BenchmarkReport) handler" where
  "benchmarkPerformance request w =
     (let original_code' = original_code request;
          optimized_variants' = optimized_variants request;
          language' = benchmark_language request;
          test_iterations' = (case test_iterations request of None \<Rightarrow> 1000 | Some n \<Rightarrow> n);
          (benchmarkResults, w') =
            benchmark_variants original_code' test_iterations' optimized_variants' w
      in case reduce_no_initial better benchmarkResults of
           Inl e \<Rightarrow> (Inl e, w')
         | Inr bestVariant \<Rightarrow>
             (Inr \<lparr> benchmark_timestamp = Date_toISOString w',
                    benchmark_report_language = language',
                    report_test_iterations = test_iterations',
                    original_code_complexity = estimateComplexity original_code',
                    variant_results = benchmarkResults,
                    best_variant = bestVariant,
                    performance_summary =
                      \<lparr> total_variants_tested = length optimized_variants',
                        average_improvement =
                          foldl (\<lambda>sum r. sum + improvement_percentage r) 0 benchmarkResults
                            / real (length benchmarkResults),
                        best_improvement = improvement_percentage bestVariant,
                        mcp_server_analysis = True \<rparr> \<rparr>,
              w'))"

section \<open>Double-precision arithmetic\<close>

text \<open>
  A JavaScript Number is an IEEE 754 binary64 value, and each arithmetic operation
  returns the exact result rounded to the nearest such value, ties to the even
  significand. \<open>fl\<close> is this rounding on the reals: 53 significant bits, with the
  fixed spacing \<open>2 powi (- 1074)\<close> below \<open>2 powi (- 1022)\<close> (the subnormal range).
  Overflow to \<^verbatim>\<open>Infinity\<close> and \<^verbatim>\<open>NaN\<close> are not modelled; the benchmark
  computes with match counts, which are array lengths below \<open>2 ^ 32\<close>, and stays far
  from both. A decimal literal of the source denotes the rounded value, so
  \<^verbatim>\<open>0.8\<close> is \<open>fl 0.8\<close>.
\<close>

definition round_even :: "real \<Rightarrow> int" where
  "round_even z =
     (let f = \<lfloor>z\<rfloor> in
      if z - of_int f < 1 / 2 then f
      else if 1 / 2 < z - of_int f then f + 1
      else if even f then f else f + 1)"

text \<open>The binary exponent of a non-negative number, not below the least normal one.\<close>

definition binade :: "real \<Rightarrow> int" where
  "binade x = max (bitlen \<lfloor>x * 2 ^ 1074\<rfloor> - 1075) (- 1022)"

definition fl_pos :: "real \<Rightarrow> real" where
  "fl_pos x =
     (let q = binade x - 52
      in of_int (round_even (x / 2 powi q)) * 2 powi q)"

definition fl :: "real \<Rightarrow> real" where
  "fl x = (if x < 0 then - fl_pos (- x) else fl_pos x)"

definition fadd :: "real \<Rightarrow> real \<Rightarrow> real" where
  "fadd x y = fl (x + y)"

definition fsub :: "real \<Rightarrow> real \<Rightarrow> real" where
  "fsub x y = fl (x - y)"

definition fmul :: "real \<Rightarrow> real \<Rightarrow> real" where
  "fmul x y = fl (x * y)"

definition fdiv :: "real \<Rightarrow> real \<Rightarrow> real" where
  "fdiv x y = fl (x / y)"

section \<open>Benchmark Simulator in double precision\<close>

text \<open>
  The handler \<^verbatim>\<open>benchmarkPerformance\<close> once more, line by line as above, with every
  arithmetic operation and every decimal literal rounded as the Number type rounds
  them. This is the arithmetic the source runs; the definitions of the previous section
  are its idealisation in exact arithmetic. The complexity estimates are integers below
  \<open>2 ^ 53\<close> and are Numbers as they are; \<^verbatim>\<open>Math.max\<close> and the comparison are exact.
\<close>

definition improvementFactor64 :: "nat \<Rightarrow> nat \<Rightarrow> real" where
  "improvementFactor64 baselineComplexity variantComplexity =
     fdiv (real baselineComplexity) (max (real variantComplexity) (fl 0.1))"

definition benchmark_variant64 ::
  "jsstring \<Rightarrow> real \<Rightarrow> CodeVariant \<Rightarrow> world \<Rightarrow> BenchmarkResult \<times> world" where
  "benchmark_variant64 original_code' test_iterations' variant w =
     (let baselineComplexity = estimateComplexity original_code';
          variantComplexity = estimateComplexity (code variant);
          improvementFactor' = improvementFactor64 baselineComplexity variantComplexity;
          (U, w') = Math_random w;
          simulatedExecutionTime =
            fmul (fdiv 1.0 improvementFactor') (fadd (fl 0.8) (fmul U (fl 0.4)));
          memoryImprovement = max 0 (fmul (fsub improvementFactor' 1) 30)
      in (\<lparr> variant_name = name variant,
            variant_description = description variant,
            execution_time_ms = simulatedExecutionTime,
            memory_usage_mb = max 0.5 (fsub 10 memoryImprovement),
            improvement_percentage = max (- 20) (fmul (fsub 1 simulatedExecutionTime) 100),
            variant_complexity_score = variantComplexity,
            result_test_iterations = test_iterations',
            benchmark_quality = lit ''mcp_server_simulated'' \<rparr>,
          w'))"

fun benchmark_variants64 ::
  "jsstring \<Rightarrow> real \<Rightarrow> CodeVariant list \<Rightarrow> world \<Rightarrow> BenchmarkResult list \<times> world" where
  "benchmark_variants64 original_code' test_iterations' [] w = ([], w)"
| "benchmark_variants64 original_code' test_iterations' (variant # variants) w =
     (let (r, w') = benchmark_variant64 original_code' test_iterations' variant w;
          (rs, w'') = benchmark_variants64 original_code' test_iterations' variants w'
      in (r # rs, w''))"

definition benchmarkPerformance64 :: "(PerformanceBenchmarkRequest, BenchmarkReport) handler" where
  "benchmarkPerformance64 request w =
     (let original_code' = original_code request;
          optimized_variants' = optimized_variants request;
          language' = benchmark_language request;
          test_iterations' = (case test_iterations request of None \<Rightarrow> 1000 | Some n \<Rightarrow> n);
          (benchmarkResults, w') =
            benchmark_variants64 original_code' test_iterations' optimized_variants' w
      in case reduce_no_initial better benchmarkResults of
           Inl e \<Rightarrow> (Inl e, w')
         | Inr bestVariant \<Rightarrow>
             (Inr \<lparr> benchmark_timestamp = Date_toISOString w',
                    benchmark_report_language = language',
                    report_test_iterations = test_iterations',
                    original_code_complexity = estimateComplexity original_code',
                    variant_results = benchmarkResults,
                    best_variant = bestVariant,
                    performance_summary =
                      \<lparr> total_variants_tested = length optimized_variants',
                        average_improvement =
                          fdiv (foldl (\<lambda>sum r. fadd sum (improvement_percentage r)) 0
                                  benchmarkResults)
                            (real (length benchmarkResults)),
                        best_improvement = improvement_percentage bestVariant,
                        mcp_server_analysis = True \<rparr> \<rparr>,
              w'))"

section \<open>Concrete inputs\<close>

definition world0 :: world where
  "world0 = \<lparr> random_stream = (\<lambda>i. 1 / 2), random_pos = 0,
              clock = lit ''2024-01-01T00:00:00.000Z'' \<rparr>"

text \<open>Handlers that leave a trace in the world when they run.\<close>

definition probe :: "nat \<Rightarrow> (unit, nat) handler" where
  "probe n args w = (Inr n, w\<lparr>random_pos := Suc (random_pos w)\<rparr>)"

definition failing :: "thrown \<Rightarrow> (unit, nat) handler" where
  "failing e args w = (Inl e, w\<lparr>random_pos := Suc (random_pos w)\<rparr>)"

definition probe_handlers :: "(unit, nat) handlers" where
  "probe_handlers =
     \<lparr> analyzeCodeComplexity = probe 1,
       benchmarkPerformance_method = probe 2,
       detectOptimizationPatterns_method = probe 3,
       generateTestCases = probe 4,
       createOptimizationReport = probe 5 \<rparr>"

definition failing_handlers :: "(unit, nat) handlers" where
  "failing_handlers =
     \<lparr> analyzeCodeComplexity = failing (JsError (lit ''boom'')),
       benchmarkPerformance_method = failing (McpError MethodNotFound (lit ''inner'')),
       detectOptimizationPatterns_method = failing (NonError (lit ''42'')),
       generateTestCases = probe 4,
       createOptimizationReport = probe 5 \<rparr>"

definition benchmark_handlers :: "(PerformanceBenchmarkRequest, BenchmarkReport) handlers" where
  "benchmark_handlers =
     \<lparr> analyzeCodeComplexity = (\<lambda>args w. (Inl (NonError (lit ''unused'')), w)),
       benchmarkPerformance_method = benchmarkPerformance,
       detectOptimizationPatterns_method = (\<lambda>args w. (Inl (NonError (lit ''unused'')), w)),
       generateTestCases = (\<lambda>args w. (Inl (NonError (lit ''unused'')), w)),
       createOptimizationReport = (\<lambda>args w. (Inl (NonError (lit ''unused'')), w)) \<rparr>"

definition empty_request :: PerformanceBenchmarkRequest where
  "empty_request =
     \<lparr> original_code = lit ''for (;;) { for (;;) {} }'',
       optimized_variants = [],
       benchmark_language = lit ''javascript'',
       test_iterations = None \<rparr>"

definition same_variant :: CodeVariant where
  "same_variant =
     \<lparr> name = lit ''unchanged'',
       code = lit ''for (;;) { for (;;) {} }'',
       description = Some (lit ''the original again'') \<rparr>"

definition flat_variant :: CodeVariant where
  "flat_variant =
     \<lparr> name = lit ''flat'',
       code = lit ''while (i < n) { i++ }'',
       description = None \<rparr>"

definition same_request :: PerformanceBenchmarkRequest where
  "same_request = empty_request\<lparr>optimized_variants := [same_variant]\<rparr>"

definition two_request :: PerformanceBenchmarkRequest where
  "two_request = empty_request\<lparr>optimized_variants := [same_variant, flat_variant]\<rparr>"

definition pattern_request :: OptimizationPatternRequest where
  "pattern_request =
     \<lparr> code_snippet = lit ''return memo[n] || xs.indexOf(n)'',
       language = lit ''javascript'',
       pattern_types = None \<rparr>"

text \<open>A world where \<^verbatim>\<open>Math.random\<close> returns 0, the least value it can return.\<close>

definition world_zero :: world where
  "world_zero = \<lparr> random_stream = (\<lambda>i. 0), random_pos = 0,
                   clock = lit ''2024-01-01T00:00:00.000Z'' \<rparr>"

section \<open>Evaluation on concrete strings\<close>

lemmas eval_simps = lit_def loop_regex_def nested_regex_def white_space_def
  not_closing_brace_def

lemma O_distinct: "O_n \<noteq> O_1" "O_1 \<noteq> O_n" "O_n_squared \<noteq> O_n" "O_n_squared \<noteq> O_1"
  by (simp_all add: O_n_def O_1_def O_n_squared_def lit_def)

lemma estimate_examples:
  "estimateComplexity (lit ''for (;;) { for (;;) {} }'') = 5"
  "estimateComplexity (lit ''while (i < n) { i++ }'') = 2"
  by (simp_all add: estimateComplexity_def eval_simps)

section \<open>The dispatcher\<close>

lemma selected_method_iff: "tool \<in> set tool_names \<longleftrightarrow> selected_method hs tool \<noteq> None"
  by (simp add: tool_names_def selected_method_def)

lemma switch_name_selected:
  "selected_method hs tool = Some h \<Longrightarrow> switch_name hs tool args w = h args w"
  by (auto simp: selected_method_def switch_name_def split: if_splits)

lemma switch_name_benchmark:
  "benchmarkPerformance_method hs = h \<Longrightarrow>
   switch_name hs (lit ''benchmark_performance'') args w = h args w"
  by (simp add: switch_name_def lit_def)

text \<open>
  C1. A call with a tool name that is not one of the five registered names fails with
  the protocol error \<open>MethodNotFound\<close> and the message \<^verbatim>\<open>Tool <name> not found\<close>,
  whatever the arguments. The result does not depend on the handler table and the world
  is returned as it was: no handler has run.
\<close>

theorem unknown_tool_MethodNotFound:
  assumes "tool \<notin> set tool_names"
  shows "CallTool hs tool args w =
           (Inl (McpError MethodNotFound (lit ''Tool '' @ tool @ lit '' not found'')), w)"
  using assms by (simp add: CallTool_def switch_name_def catch_error_def tool_names_def)

theorem unknown_tool_MethodNotFound_witness:
  "lit ''run_shell'' \<notin> set tool_names \<and>
   CallTool probe_handlers (lit ''run_shell'') () world0 =
     (Inl (McpError MethodNotFound (lit ''Tool run_shell not found'')), world0)"
proof -
  have h: "lit ''run_shell'' \<notin> set tool_names"
    by (simp add: tool_names_def lit_def)
  show ?thesis
    using h unknown_tool_MethodNotFound [OF h, of probe_handlers "()" world0]
    by (simp add: lit_def)
qed

text \<open>
  C2. For a registered tool name the switch calls one handler method. When that method
  throws an \<^verbatim>\<open>Error\<close> that is not an \<^verbatim>\<open>McpError\<close>, the call fails with
  \<open>InternalError\<close> and the message \<^verbatim>\<open>Error executing tool <name>: <message>\<close>, which
  ends with the message of the original error (for a thrown value that is not an
  \<^verbatim>\<open>Error\<close>, with its string form). When the method throws an \<^verbatim>\<open>McpError\<close>, the
  call fails with that same error, code and message unchanged.
\<close>

theorem handler_errors_surfaced:
  assumes "tool \<in> set tool_names"
  shows "\<exists>h. selected_method hs tool = Some h \<and>
           (\<forall>args w w' message.
              h args w = (Inl (JsError message), w') \<longrightarrow>
              CallTool hs tool args w =
                (Inl (McpError InternalError
                       (lit ''Error executing tool '' @ tool @ lit '': '' @ message)), w')) \<and>
           (\<forall>args w w' str.
              h args w = (Inl (NonError str), w') \<longrightarrow>
              CallTool hs tool args w =
                (Inl (McpError InternalError
                       (lit ''Error executing tool '' @ tool @ lit '': '' @ str)), w')) \<and>
           (\<forall>args w w' c m.
              h args w = (Inl (McpError c m), w') \<longrightarrow>
              CallTool hs tool args w = (Inl (McpError c m), w'))"
proof -
  from assms obtain h where h: "selected_method hs tool = Some h"
    using selected_method_iff [of tool hs] by auto
  have "\<And>args w. switch_name hs tool args w = h args w"
    using h by (rule switch_name_selected)
  then show ?thesis
    using h by (simp add: CallTool_def catch_error_def)
qed

theorem handler_errors_surfaced_witness:
  "lit ''analyze_code_complexity'' \<in> set tool_names
   \<and> lit ''benchmark_performance'' \<in> set tool_names
   \<and> CallTool failing_handlers (lit ''analyze_code_complexity'') () world0 =
       (Inl (McpError InternalError
              (lit ''Error executing tool analyze_code_complexity: boom'')),
        world0\<lparr>random_pos := 1\<rparr>)
   \<and> CallTool failing_handlers (lit ''benchmark_performance'') () world0 =
       (Inl (McpError MethodNotFound (lit ''inner'')), world0\<lparr>random_pos := 1\<rparr>)"
proof -
  have a: "lit ''analyze_code_complexity'' \<in> set tool_names"
    and b: "lit ''benchmark_performance'' \<in> set tool_names"
    by (simp_all add: tool_names_def)
  have sa: "selected_method failing_handlers (lit ''analyze_code_complexity'') =
              Some (failing (JsError (lit ''boom'')))"
    by (simp add: selected_method_def failing_handlers_def)
  have sb: "selected_method failing_handlers (lit ''benchmark_performance'') =
              Some (failing (McpError MethodNotFound (lit ''inner'')))"
    by (simp add: selected_method_def failing_handlers_def lit_def)
  have w: "random_pos world0 = 0"
    by (simp add: world0_def)
  have fa: "failing (JsError (lit ''boom'')) () world0 =
              (Inl (JsError (lit ''boom'')), world0\<lparr>random_pos := 1\<rparr>)"
    by (simp add: failing_def w)
  have fb: "failing (McpError MethodNotFound (lit ''inner'')) () world0 =
              (Inl (McpError MethodNotFound (lit ''inner'')), world0\<lparr>random_pos := 1\<rparr>)"
    by (simp add: failing_def w)
  have ca: "CallTool failing_handlers (lit ''analyze_code_complexity'') () world0 =
       (Inl (McpError InternalError
              (lit ''Error executing tool '' @ lit ''analyze_code_complexity'' @ lit '': ''
                 @ lit ''boom'')),
        world0\<lparr>random_pos := 1\<rparr>)"
    using handler_errors_surfaced [OF a, of failing_handlers] sa fa by auto
  have cb: "CallTool failing_handlers (lit ''benchmark_performance'') () world0 =
       (Inl (McpError MethodNotFound (lit ''inner'')), world0\<lparr>random_pos := 1\<rparr>)"
    using handler_errors_surfaced [OF b, of failing_handlers] sb fb by auto
  show ?thesis
    using a b ca cb by (simp add: lit_def)
qed

section \<open>The Complexity Analyzer\<close>

text \<open>
  C3. For every code string the analyzer counts the matches of the two regular
  expressions and the recursion proxy, and returns
  \<open>complexity_score = loop_count + 2 * nested_loops + recursive_calls\<close>; the time
  complexity is chosen in the order nested loops, loops, recursion, else \<^verbatim>\<open>O(1)\<close>; the
  space complexity is \<^verbatim>\<open>O(n)\<close> exactly when there is a nested loop. With no loop, no
  nested loop and no recursion indicator the score is 0 and the class is \<^verbatim>\<open>O(1)\<close>.
\<close>

theorem complexity_analysis_formula:
  "(let r = performComplexityAnalysis src lang in
      loop_count r = match_count loop_regex src
    \<and> nested_loops r = match_count nested_regex src
    \<and> recursive_calls r =
         (if str_includes src (lit ''return'') \<and> str_includes src (lit ''('') then 1 else 0)
    \<and> complexity_score r = loop_count r + 2 * nested_loops r + recursive_calls r
    \<and> time_complexity r =
         (if nested_loops r > 0 then O_n_squared
          else if loop_count r > 0 then O_n
          else if recursive_calls r > 0 then O_n
          else O_1)
    \<and> (space_complexity r = O_n) = (nested_loops r > 0)
    \<and> (space_complexity r = O_1) = (nested_loops r = 0)
    \<and> (loop_count r = 0 \<and> nested_loops r = 0 \<and> recursive_calls r = 0 \<longrightarrow>
         complexity_score r = 0 \<and> time_complexity r = O_1))"
  by (simp add: performComplexityAnalysis_def Let_def O_distinct)

theorem complexity_analysis_formula_witness:
  "loop_count (performComplexityAnalysis (lit ''x = y + 1;'') (lit ''javascript'')) = 0
   \<and> nested_loops (performComplexityAnalysis (lit ''x = y + 1;'') (lit ''javascript'')) = 0
   \<and> recursive_calls (performComplexityAnalysis (lit ''x = y + 1;'') (lit ''javascript'')) = 0
   \<and> complexity_score (performComplexityAnalysis (lit ''x = y + 1;'') (lit ''javascript'')) = 0
   \<and> time_complexity (performComplexityAnalysis (lit ''x = y + 1;'') (lit ''javascript'')) = O_1"
proof -
  have "match_count loop_regex (lit ''x = y + 1;'') = 0"
    by (simp add: eval_simps)
  moreover have "match_count nested_regex (lit ''x = y + 1;'') = 0"
    by (simp add: eval_simps)
  moreover have "\<not> str_includes (lit ''x = y + 1;'') (lit ''return'')"
    by (simp add: eval_simps)
  ultimately show ?thesis
    using complexity_analysis_formula [of "lit ''x = y + 1;''" "lit ''javascript''"]
    by (simp add: Let_def)
qed

section \<open>The Pattern Detector\<close>

text \<open>
  On the snippet \<^verbatim>\<open>memo\<close>, which has the memo token and no return-with-call proxy, the
  pattern \<^verbatim>\<open>dynamic_programming\<close> gets the score 0.8: the score is high although the
  snippet does not show both indicators.
\<close>

theorem dynamic_programming_both_counterexample:
  "score (assessPatternApplicability (lit ''memo'') (lit ''dynamic_programming'')
            (lit ''javascript'')) = 0.8
   \<and> \<not> (score (assessPatternApplicability (lit ''memo'') (lit ''dynamic_programming'')
                 (lit ''javascript'')) = 0.8
         \<longleftrightarrow> (str_includes (lit ''memo'') (lit ''return'')
                \<and> str_includes (lit ''memo'') (lit ''(''))
              \<and> str_includes (lit ''memo'') (lit ''memo''))"
  by (simp add: assessPatternApplicability_def lit_def)

text \<open>
  C4, as the code has it. For the pattern \<^verbatim>\<open>dynamic_programming\<close> the score is 0.8
  when the snippet contains \<^verbatim>\<open>memo\<close> or shows the return-with-call proxy (it contains
  \<^verbatim>\<open>return\<close> and \<^verbatim>\<open>(\<close>); one of the two is enough. Otherwise the score is 0.2.
\<close>

theorem dynamic_programming_score:
  "score (assessPatternApplicability src (lit ''dynamic_programming'') lang) =
     (if str_includes src (lit ''memo'')
         \<or> (str_includes src (lit ''return'') \<and> str_includes src (lit ''(''))
      then 0.8 else 0.2)"
  by (simp add: assessPatternApplicability_def Let_def)

section \<open>The Benchmark Simulator\<close>

lemma estimateComplexity_ge_1: "1 \<le> estimateComplexity src"
  by (simp add: estimateComplexity_def Let_def)

lemma improvementFactor_pos:
  "0 < improvementFactor (estimateComplexity a) (estimateComplexity b)"
proof -
  have "0 < real (estimateComplexity a)"
    using estimateComplexity_ge_1 [of a] by simp
  moreover have "0 < max (real (estimateComplexity b)) 0.1"
    by simp
  ultimately show ?thesis
    by (simp add: improvementFactor_def)
qed










text \<open>
  On the empty string the estimate of the benchmark is 1 and the complexity score of the
  analyzer is 0: the two scorers are not the same function.
\<close>

theorem benchmark_scorer_counterexample:
  "estimateComplexity [] = 1
   \<and> complexity_score (performComplexityAnalysis [] (lit ''javascript'')) = 0
   \<and> estimateComplexity [] \<noteq>
       complexity_score (performComplexityAnalysis [] (lit ''javascript''))"
  by (simp add: estimateComplexity_def performComplexityAnalysis_def eval_simps)

text \<open>
  C6. A call of \<^verbatim>\<open>benchmark_performance\<close> with an empty list of variants fails: the
  reduction over the empty list of results throws, and the dispatcher reports it to the
  caller as an \<open>InternalError\<close>. No report is returned.
\<close>

theorem empty_variants_fail:
  assumes "benchmarkPerformance_method hs = benchmarkPerformance"
      and "optimized_variants request = []"
  shows "CallTool hs (lit ''benchmark_performance'') request w =
           (Inl (McpError InternalError
                  (lit ''Error executing tool benchmark_performance: Reduce of empty array with no initial value'')),
            w)"
proof -
  have "benchmarkPerformance request w =
          (Inl (JsError (lit ''Reduce of empty array with no initial value'')), w)"
    using assms(2) by (simp add: benchmarkPerformance_def reduce_no_initial_def)
  then show ?thesis
    using switch_name_benchmark [OF assms(1), of request w]
    by (simp add: CallTool_def catch_error_def lit_def)
qed

theorem empty_variants_fail_witness:
  "benchmarkPerformance_method benchmark_handlers = benchmarkPerformance
   \<and> optimized_variants empty_request = []
   \<and> CallTool benchmark_handlers (lit ''benchmark_performance'') empty_request world0 =
           (Inl (McpError InternalError
                  (lit ''Error executing tool benchmark_performance: Reduce of empty array with no initial value'')),
            world0)"
proof -
  have a: "benchmarkPerformance_method benchmark_handlers = benchmarkPerformance"
    by (simp add: benchmark_handlers_def)
  have b: "optimized_variants empty_request = []"
    by (simp add: empty_request_def)
  show ?thesis
    using a b empty_variants_fail [OF a b, of world0] by simp
qed

text \<open>
  C9. For every string the estimate of the benchmark,
  \<open>1 + loop_count + 2 * nested_loops\<close>, is at least 1. So the maximum of a variant's
  estimate and 0.1 is the estimate itself, and the improvement factor is the quotient
  of two estimates, a positive number.
\<close>

theorem estimate_at_least_one:
  "estimateComplexity src = 1 + match_count loop_regex src + 2 * match_count nested_regex src
   \<and> 1 \<le> estimateComplexity src
   \<and> max (real (estimateComplexity src)) 0.1 = real (estimateComplexity src)
   \<and> improvementFactor (estimateComplexity orig) (estimateComplexity src) =
       real (estimateComplexity orig) / real (estimateComplexity src)
   \<and> 0 < improvementFactor (estimateComplexity orig) (estimateComplexity src)"
proof -
  have ge: "1 \<le> real (estimateComplexity src)"
    using estimateComplexity_ge_1 [of src] by simp
  then have m: "max (real (estimateComplexity src)) 0.1 = real (estimateComplexity src)"
    by simp
  show ?thesis
    using m improvementFactor_pos [of orig src] estimateComplexity_ge_1 [of src]
    by (simp add: improvementFactor_def estimateComplexity_def Let_def)
qed



section \<open>Rounding to double precision\<close>

lemma round_even_of_int [simp]: "round_even (of_int n) = n"
  by (simp add: round_even_def)

lemma round_even_mono: "a \<le> b \<Longrightarrow> round_even a \<le> round_even b"
proof -
  assume ab: "a \<le> b"
  have floors: "\<lfloor>a\<rfloor> \<le> \<lfloor>b\<rfloor>" using ab by (rule floor_mono)
  show ?thesis
  proof (cases "\<lfloor>a\<rfloor> = \<lfloor>b\<rfloor>")
    case True
    then show ?thesis using ab by (auto simp: round_even_def Let_def)
  next
    case False
    with floors have "\<lfloor>a\<rfloor> + 1 \<le> \<lfloor>b\<rfloor>" by simp
    moreover have "round_even a \<le> \<lfloor>a\<rfloor> + 1" by (auto simp: round_even_def Let_def)
    moreover have "\<lfloor>b\<rfloor> \<le> round_even b" by (auto simp: round_even_def Let_def)
    ultimately show ?thesis by linarith
  qed
qed

lemma round_even_le_int: "a \<le> of_int n \<Longrightarrow> round_even a \<le> n"
  using round_even_mono [of a "of_int n"] by simp

lemma round_even_ge_int: "of_int n \<le> a \<Longrightarrow> n \<le> round_even a"
  using round_even_mono [of "of_int n" a] by simp

lemma binade_ge: "- 1022 \<le> binade x"
  by (simp add: binade_def)

lemma powi_shift: "- 1074 \<le> e \<Longrightarrow> (2::real) powi e * 2 ^ 1074 = 2 ^ nat (e + 1074)"
proof -
  assume e: "- 1074 \<le> e"
  have "(2::real) powi e * 2 ^ 1074 = 2 powi e * 2 powi 1074"
    by simp
  also have "\<dots> = 2 powi (e + 1074)"
    by (simp add: power_int_add)
  also have "\<dots> = 2 ^ nat (e + 1074)"
    using e by (simp add: power_int_def)
  finally show ?thesis .
qed

lemma floor_scaled_bounds:
  fixes x :: real
  assumes "- 1074 \<le> e"
  shows "2 powi e \<le> x \<longleftrightarrow> 2 ^ nat (e + 1074) \<le> \<lfloor>x * 2 ^ 1074\<rfloor>"
    and "x < 2 powi e \<longleftrightarrow> \<lfloor>x * 2 ^ 1074\<rfloor> < 2 ^ nat (e + 1074)"
proof -
  define k :: real where "k = 2 ^ 1074"
  have kpos: "0 < k" by (simp add: k_def)
  have sh: "2 powi e * k = real_of_int (2 ^ nat (e + 1074))"
    using powi_shift [OF assms] by (simp add: k_def)
  have "2 powi e \<le> x \<longleftrightarrow> 2 powi e * k \<le> x * k"
    using kpos by simp
  also have "\<dots> \<longleftrightarrow> 2 ^ nat (e + 1074) \<le> \<lfloor>x * k\<rfloor>"
    unfolding sh by (simp only: le_floor_iff)
  finally show "2 powi e \<le> x \<longleftrightarrow> 2 ^ nat (e + 1074) \<le> \<lfloor>x * 2 ^ 1074\<rfloor>"
    by (simp only: k_def)
  have "x < 2 powi e \<longleftrightarrow> x * k < 2 powi e * k"
    using kpos by simp
  also have "\<dots> \<longleftrightarrow> \<lfloor>x * k\<rfloor> < 2 ^ nat (e + 1074)"
    unfolding sh by (simp only: floor_less_iff)
  finally show "x < 2 powi e \<longleftrightarrow> \<lfloor>x * 2 ^ 1074\<rfloor> < 2 ^ nat (e + 1074)"
    by (simp only: k_def)
qed

lemma binade_eq:
  assumes "2 powi e \<le> x" and "x < 2 powi (e + 1)" and "- 1022 \<le> e"
  shows "binade x = e"
proof -
  define m where "m = \<lfloor>x * 2 ^ 1074\<rfloor>"
  have lo: "2 ^ nat (e + 1074) \<le> m"
    using assms(1,3) floor_scaled_bounds(1) [of e x] unfolding m_def by simp
  have n1: "nat (e + 1 + 1074) = nat (e + 1075)"
    by (simp add: add.commute)
  have hi: "m < 2 ^ nat (e + 1075)"
    using assms(2,3) floor_scaled_bounds(2) [of "e + 1" x] unfolding n1 m_def by simp
  have n2: "nat (e + 1075) - 1 = nat (e + 1074)"
    using assms(3) by simp
  have "bitlen m \<le> e + 1075"
    using hi assms(3) by (simp add: bitlen_le_iff_power)
  moreover have "e + 1075 \<le> bitlen m"
    unfolding bitlen_ge_iff_power n2 using lo by simp
  ultimately have "bitlen m - 1075 = e" by simp
  then show ?thesis
    using assms(3) unfolding binade_def m_def [symmetric] by simp
qed

lemma binade_small:
  assumes "x < 2 powi (- 1022)"
  shows "binade x = - 1022"
proof -
  define m where "m = \<lfloor>x * 2 ^ 1074\<rfloor>"
  have "m < 2 ^ nat (- 1022 + 1074)"
    using assms floor_scaled_bounds(2) [of "- 1022" x] unfolding m_def by simp
  then have "m < 2 ^ nat 52"
    by simp
  then have "bitlen m \<le> 52"
    by (simp add: bitlen_le_iff_power)
  then show ?thesis
    unfolding binade_def m_def [symmetric] by simp
qed

lemma binade_bounds:
  shows "x < 2 powi (binade x + 1) \<and> (binade x = - 1022 \<or> 2 powi (binade x) \<le> x)"
proof (cases "x < 2 powi (- 1022)")
  case True
  then have "binade x = - 1022" by (rule binade_small)
  moreover have "(2::real) powi (- 1022) \<le> 2 powi (- 1022 + 1)"
    by (intro power_int_increasing) simp_all
  ultimately show ?thesis using True by simp
next
  case False
  define m where "m = \<lfloor>x * 2 ^ 1074\<rfloor>"
  define e where "e = bitlen m - 1075"
  have "2 ^ nat (- 1022 + 1074) \<le> m"
    using False floor_scaled_bounds(1) [of "- 1022" x] unfolding m_def by simp
  then have m52: "2 ^ nat 52 \<le> m"
    by simp
  have "(0::int) < 2 ^ nat 52" by simp
  with m52 have mpos: "0 < m" by linarith
  have "53 \<le> bitlen m"
    unfolding bitlen_ge_iff_power using m52 by simp
  then have e: "- 1022 \<le> e" by (simp add: e_def)
  have n1: "nat (bitlen m - 1) = nat (e + 1074)" and n2: "nat (bitlen m) = nat (e + 1 + 1074)"
    by (simp_all add: e_def)
  from bitlen_bounds [OF mpos]
  have b1: "2 ^ nat (e + 1074) \<le> m" and b2: "m < 2 ^ nat (e + 1 + 1074)"
    unfolding n1 n2 by simp_all
  have lo: "2 powi e \<le> x"
    using b1 e floor_scaled_bounds(1) [of e x] unfolding m_def by simp
  have hi: "x < 2 powi (e + 1)"
    using b2 e floor_scaled_bounds(2) [of "e + 1" x] unfolding m_def by simp
  have "binade x = e"
    using lo hi e by (rule binade_eq)
  then show ?thesis
    using lo hi by simp
qed

lemma binade_mono:
  assumes "x \<le> y"
  shows "binade x \<le> binade y"
proof -
  have "\<lfloor>x * 2 ^ 1074\<rfloor> \<le> \<lfloor>y * 2 ^ 1074\<rfloor>"
    using assms by (intro floor_mono) simp
  then have "bitlen \<lfloor>x * 2 ^ 1074\<rfloor> \<le> bitlen \<lfloor>y * 2 ^ 1074\<rfloor>"
    unfolding bitlen_def by (intro floorlog_mono nat_mono of_nat_mono)
  then show ?thesis
    by (simp add: binade_def)
qed


lemma fl_pos_eval:
  assumes "2 powi e \<le> x" and "x < 2 powi (e + 1)" and "- 1022 \<le> e"
  shows "fl_pos x = of_int (round_even (x / 2 powi (e - 52))) * 2 powi (e - 52)"
  using binade_eq [OF assms] by (simp add: fl_pos_def Let_def)

lemma fl_pos_eval_small:
  assumes "x < 2 powi (- 1022)"
  shows "fl_pos x = of_int (round_even (x / 2 powi (- 1074))) * 2 powi (- 1074)"
  using binade_small [OF assms] by (simp add: fl_pos_def Let_def)

lemma powi_52: "(2::real) powi e = real_of_int (2 ^ 52) * 2 powi (e - 52)"
proof -
  have "e = 52 + (e - 52)"
    by simp
  then have "(2::real) powi e = 2 powi (52 + (e - 52))"
    by (rule arg_cong)
  also have "\<dots> = 2 powi 52 * 2 powi (e - 52)"
    by (rule power_int_add) simp
  finally show ?thesis by simp
qed

lemma powi_53: "(2::real) powi (e + 1) = real_of_int (2 ^ 53) * 2 powi (e - 52)"
proof -
  have "e + 1 = 53 + (e - 52)"
    by simp
  then have "(2::real) powi (e + 1) = 2 powi (53 + (e - 52))"
    by (rule arg_cong)
  also have "\<dots> = 2 powi 53 * 2 powi (e - 52)"
    by (rule power_int_add) simp
  finally show ?thesis by simp
qed

lemma scaled_upper:
  fixes x :: real
  assumes "x < 2 powi (e + 1)"
  shows "x / 2 powi (e - 52) < real_of_int (2 ^ 53)"
proof -
  have "x < real_of_int (2 ^ 53) * 2 powi (e - 52)"
    using assms unfolding powi_53 .
  then show ?thesis
    by (simp only: pos_divide_less_eq zero_less_power_int zero_less_numeral)
qed

lemma scaled_lower:
  fixes x :: real
  assumes "2 powi e \<le> x"
  shows "real_of_int (2 ^ 52) \<le> x / 2 powi (e - 52)"
proof -
  have "real_of_int (2 ^ 52) * 2 powi (e - 52) \<le> x"
    using assms unfolding powi_52 [of e] .
  then show ?thesis
    by (simp only: pos_le_divide_eq zero_less_power_int zero_less_numeral)
qed

lemma fl_pos_nonneg: "0 \<le> x \<Longrightarrow> 0 \<le> fl_pos x"
proof -
  assume "0 \<le> x"
  then have "real_of_int 0 \<le> x / 2 powi (binade x - 52)"
    by simp
  then have "0 \<le> round_even (x / 2 powi (binade x - 52))"
    by (rule round_even_ge_int)
  then show ?thesis
    by (simp add: fl_pos_def Let_def)
qed

lemma fl_pos_upper: "fl_pos x \<le> 2 powi (binade x + 1)"
proof -
  have "x < 2 powi (binade x + 1)"
    using binade_bounds [of x] by simp
  then have "x / 2 powi (binade x - 52) \<le> real_of_int (2 ^ 53)"
    using scaled_upper [of x "binade x"] by simp
  then have "round_even (x / 2 powi (binade x - 52)) \<le> 2 ^ 53"
    by (rule round_even_le_int)
  then have "real_of_int (round_even (x / 2 powi (binade x - 52))) \<le> real_of_int (2 ^ 53)"
    by (simp only: of_int_le_iff)
  then have "real_of_int (round_even (x / 2 powi (binade x - 52))) * 2 powi (binade x - 52)
      \<le> real_of_int (2 ^ 53) * 2 powi (binade x - 52)"
    by (intro mult_right_mono) simp_all
  then show ?thesis
    unfolding powi_53 [of "binade x"] by (simp only: fl_pos_def Let_def)
qed

lemma fl_pos_lower:
  assumes "2 powi (binade x) \<le> x"
  shows "2 powi (binade x) \<le> fl_pos x"
proof -
  have "real_of_int (2 ^ 52) \<le> x / 2 powi (binade x - 52)"
    using assms by (rule scaled_lower)
  then have "2 ^ 52 \<le> round_even (x / 2 powi (binade x - 52))"
    by (rule round_even_ge_int)
  then have "real_of_int (2 ^ 52) \<le> real_of_int (round_even (x / 2 powi (binade x - 52)))"
    by (simp only: of_int_le_iff)
  then have "real_of_int (2 ^ 52) * 2 powi (binade x - 52)
      \<le> real_of_int (round_even (x / 2 powi (binade x - 52))) * 2 powi (binade x - 52)"
    by (intro mult_right_mono) simp_all
  then show ?thesis
    unfolding powi_52 [of "binade x"] by (simp only: fl_pos_def Let_def)
qed

lemma fl_pos_mono:
  assumes "x \<le> y"
  shows "fl_pos x \<le> fl_pos y"
proof (cases "binade x = binade y")
  case True
  have "x / 2 powi (binade y - 52) \<le> y / 2 powi (binade y - 52)"
    using assms by (simp add: divide_right_mono)
  then have "round_even (x / 2 powi (binade y - 52)) \<le> round_even (y / 2 powi (binade y - 52))"
    by (rule round_even_mono)
  then show ?thesis
    using True by (simp add: fl_pos_def Let_def)
next
  case False
  with binade_mono [OF assms] have lt: "binade x + 1 \<le> binade y"
    by simp
  then have "binade y \<noteq> - 1022"
    using binade_ge [of x] by simp
  then have "2 powi (binade y) \<le> y"
    using binade_bounds [of y] by simp
  then have "2 powi (binade y) \<le> fl_pos y"
    by (rule fl_pos_lower)
  moreover have "fl_pos x \<le> 2 powi (binade x + 1)"
    by (rule fl_pos_upper)
  moreover have "(2::real) powi (binade x + 1) \<le> 2 powi (binade y)"
    using lt by (intro power_int_increasing) simp_all
  ultimately show ?thesis by linarith
qed

lemma round_even_zero [simp]: "round_even 0 = 0"
  using round_even_of_int [of 0] by simp

lemma fl_pos_zero [simp]: "fl_pos 0 = 0"
  by (simp add: fl_pos_def)

lemma fl_mono:
  assumes "x \<le> y"
  shows "fl x \<le> fl y"
proof -
  consider "0 \<le> x" | "x < 0" "0 \<le> y" | "y < 0" by linarith
  then show ?thesis
  proof cases
    case 1
    then show ?thesis using assms fl_pos_mono [OF assms] by (simp add: fl_def)
  next
    case 2
    have "0 \<le> fl_pos (- x)" using 2 by (intro fl_pos_nonneg) simp
    moreover have "0 \<le> fl_pos y" using 2 by (intro fl_pos_nonneg)
    ultimately show ?thesis using 2 by (simp add: fl_def)
  next
    case 3
    have "fl_pos (- y) \<le> fl_pos (- x)" using assms by (intro fl_pos_mono) simp
    then show ?thesis using 3 assms by (simp add: fl_def)
  qed
qed


lemma round_scaled_le: "round_even (x / 2 powi (binade x - 52)) \<le> 2 ^ 53"
proof -
  have "x < 2 powi (binade x + 1)"
    using binade_bounds [of x] by simp
  then have "x / 2 powi (binade x - 52) \<le> real_of_int (2 ^ 53)"
    using scaled_upper [of x "binade x"] by simp
  then show ?thesis
    by (rule round_even_le_int)
qed

lemma fl_pos_int_lt:
  assumes "0 \<le> n" and "n < 2 ^ 53" and "- 1074 \<le> q"
  shows "fl_pos (of_int n * 2 powi q) = of_int n * 2 powi q"
proof -
  define y :: real where "y = of_int n * 2 powi q"
  define b where "b = binade y"
  have ylt: "y < 2 powi (q + 53)"
  proof -
    have "real_of_int n < real_of_int (2 ^ 53)"
      using assms(2) by (simp only: of_int_less_iff)
    then have "y < real_of_int (2 ^ 53) * 2 powi q"
      unfolding y_def by (intro mult_strict_right_mono) simp_all
    also have "\<dots> = 2 powi 53 * 2 powi q" by simp
    also have "\<dots> = 2 powi (53 + q)" by (rule power_int_add [symmetric]) simp
    finally show ?thesis by (simp add: add.commute)
  qed
  have qb: "b - 52 \<le> q"
  proof (cases "b = - 1022")
    case True
    then show ?thesis using assms(3) by simp
  next
    case False
    then have "2 powi b \<le> y"
      using binade_bounds [of y] by (simp add: b_def)
    with ylt have "(2::real) powi b < 2 powi (q + 53)" by linarith
    have "b < q + 53"
    proof (rule ccontr)
      assume "\<not> b < q + 53"
      then have "(2::real) powi (q + 53) \<le> 2 powi b"
        by (intro power_int_increasing) simp_all
      with \<open>(2::real) powi b < 2 powi (q + 53)\<close> show False by simp
    qed
    then show ?thesis by simp
  qed
  define d where "d = nat (q - (b - 52))"
  have "(2::real) powi q = 2 powi ((b - 52) + int d)"
    using qb by (simp add: d_def)
  also have "\<dots> = 2 powi (b - 52) * 2 powi (int d)"
    by (rule power_int_add) simp
  finally have split: "(2::real) powi q = 2 powi (b - 52) * 2 ^ d"
    by simp
  have "y / 2 powi (b - 52) = real_of_int (n * 2 ^ d)"
    by (simp add: y_def split)
  then have "round_even (y / 2 powi (b - 52)) = n * 2 ^ d"
    by (simp only: round_even_of_int)
  then have "fl_pos y = real_of_int (n * 2 ^ d) * 2 powi (b - 52)"
    by (simp add: fl_pos_def Let_def b_def)
  also have "\<dots> = y"
    by (simp add: y_def split)
  finally show ?thesis
    by (simp add: y_def)
qed

lemma fl_pos_int:
  assumes "0 \<le> n" and "n \<le> 2 ^ 53" and "- 1074 \<le> q"
  shows "fl_pos (of_int n * 2 powi q) = of_int n * 2 powi q"
proof (cases "n = 2 ^ 53")
  case False
  with assms(2) have "n < 2 ^ 53" by simp
  with assms(1) show ?thesis using assms(3) by (rule fl_pos_int_lt)
next
  case True
  have "real_of_int n * 2 powi q = real_of_int (2 ^ 52) * 2 powi (q + 1)"
    unfolding True by (simp add: power_int_add)
  moreover have "fl_pos (real_of_int (2 ^ 52) * 2 powi (q + 1)) =
      real_of_int (2 ^ 52) * 2 powi (q + 1)"
    using assms(3) by (intro fl_pos_int_lt) simp_all
  ultimately show ?thesis by simp
qed

lemma fl_pos_idem:
  assumes "0 \<le> x"
  shows "fl_pos (fl_pos x) = fl_pos x"
proof -
  define n where "n = round_even (x / 2 powi (binade x - 52))"
  have "real_of_int 0 \<le> x / 2 powi (binade x - 52)"
    using assms by simp
  then have n0: "0 \<le> n"
    unfolding n_def by (rule round_even_ge_int)
  have n53: "n \<le> 2 ^ 53"
    unfolding n_def by (rule round_scaled_le)
  have q: "- 1074 \<le> binade x - 52"
    using binade_ge [of x] by simp
  have "fl_pos x = real_of_int n * 2 powi (binade x - 52)"
    by (simp add: fl_pos_def Let_def n_def)
  then show ?thesis
    using fl_pos_int [OF n0 n53 q] by simp
qed

lemma fl_idem [simp]: "fl (fl x) = fl x"
proof (cases "x < 0")
  case False
  then have "0 \<le> fl_pos x" by (intro fl_pos_nonneg) simp
  then show ?thesis
    using False fl_pos_idem [of x] by (simp add: fl_def)
next
  case True
  then have nn: "0 \<le> fl_pos (- x)" by (intro fl_pos_nonneg) simp
  show ?thesis
  proof (cases "fl_pos (- x) = 0")
    case True
    with \<open>x < 0\<close> show ?thesis by (simp add: fl_def)
  next
    case False
    with nn have "0 < fl_pos (- x)" by simp
    then show ?thesis
      using \<open>x < 0\<close> fl_pos_idem [of "- x"] by (simp add: fl_def)
  qed
qed

lemma fl_zero [simp]: "fl 0 = 0"
  by (simp add: fl_def)

lemma fl_one [simp]: "fl 1 = 1"
proof -
  have "fl_pos (real_of_int 1 * 2 powi 0) = real_of_int 1 * 2 powi 0"
    by (rule fl_pos_int) simp_all
  then show ?thesis by (simp add: fl_def)
qed

lemma fl_nonneg: "0 \<le> x \<Longrightarrow> 0 \<le> fl x"
  using fl_mono [of 0 x] by simp

lemma double_below_one:
  assumes "fl U = U" and "0 \<le> U" and "U < 1"
  shows "U \<le> 1 - 1 / 2 ^ 53"
proof (cases "U < 1 / 2")
  case True
  then show ?thesis by simp
next
  case False
  have "fl_pos U = of_int (round_even (U / 2 powi (- 1 - 52))) * 2 powi (- 1 - 52)"
    using False assms(3) by (intro fl_pos_eval) (simp_all add: power_int_minus)
  then have U: "U = of_int (round_even (U * 2 ^ 53)) / 2 ^ 53"
    using assms(1,2) by (simp add: fl_def power_int_minus field_simps)
  define n where "n = round_even (U * 2 ^ 53)"
  have "real_of_int n / 2 ^ 53 < 1"
    using U assms(3) by (simp add: n_def)
  then have "real_of_int n < real_of_int (2 ^ 53)"
    by simp
  then have "n < 2 ^ 53"
    by (simp only: of_int_less_iff)
  then have "n \<le> 2 ^ 53 - 1" by simp
  then have "real_of_int n \<le> real_of_int (2 ^ 53 - 1)"
    by (simp only: of_int_le_iff)
  then have "real_of_int n / 2 ^ 53 \<le> real_of_int (2 ^ 53 - 1) / 2 ^ 53"
    by (intro divide_right_mono) simp_all
  then show ?thesis
    using U by (simp add: n_def)
qed

lemma round_even_error: "\<bar>real_of_int (round_even z) - z\<bar> \<le> 1 / 2"
  by (auto simp: round_even_def Let_def)

lemma binade_le:
  assumes "x < 2 powi (e + 1)" and "- 1022 \<le> e"
  shows "binade x \<le> e"
proof (cases "binade x = - 1022")
  case True
  then show ?thesis using assms(2) by simp
next
  case False
  then have "2 powi (binade x) \<le> x"
    using binade_bounds [of x] by simp
  with assms(1) have lt: "(2::real) powi (binade x) < 2 powi (e + 1)" by linarith
  have "binade x < e + 1"
  proof (rule ccontr)
    assume "\<not> binade x < e + 1"
    then have "(2::real) powi (e + 1) \<le> 2 powi (binade x)"
      by (intro power_int_increasing) simp_all
    with lt show False by simp
  qed
  then show ?thesis by simp
qed

lemma fl_pos_error:
  assumes "x < 2 powi (e + 1)" and "- 1022 \<le> e"
  shows "\<bar>fl_pos x - x\<bar> \<le> 2 powi (e - 53)"
proof -
  define q where "q = binade x - 52"
  define u :: real where "u = 2 powi q"
  have upos: "0 < u" by (simp add: u_def)
  have "fl_pos x - x = (real_of_int (round_even (x / u)) - x / u) * u"
    using upos by (simp add: fl_pos_def Let_def q_def u_def field_simps)
  then have "\<bar>fl_pos x - x\<bar> = \<bar>real_of_int (round_even (x / u)) - x / u\<bar> * u"
    using upos by (simp add: abs_mult)
  also have "\<dots> \<le> 1 / 2 * u"
    using upos round_even_error [of "x / u"] by (intro mult_right_mono) simp_all
  also have "\<dots> = 2 powi (- 1) * 2 powi q"
    by (simp add: u_def power_int_minus)
  also have "\<dots> = 2 powi (- 1 + q)"
    by (rule power_int_add [symmetric]) simp
  also have "\<dots> \<le> 2 powi (e - 53)"
    using binade_le [OF assms] by (intro power_int_increasing) (simp_all add: q_def)
  finally show ?thesis .
qed

lemma fl_error:
  assumes "0 \<le> x" and "x < 2 powi (e + 1)" and "- 1022 \<le> e"
  shows "\<bar>fl x - x\<bar> \<le> 2 powi (e - 53)"
  using assms fl_pos_error [of x e] by (simp add: fl_def)

lemma fl_representable:
  assumes "0 \<le> n" and "n \<le> 2 ^ 53" and "- 1074 \<le> q"
  shows "fl (of_int n * 2 powi q) = of_int n * 2 powi q"
proof -
  have "0 \<le> real_of_int n * 2 powi q"
    using assms(1) by simp
  then show ?thesis
    using fl_pos_int [OF assms] by (simp add: fl_def)
qed

lemma fl_two_32: "fl (2 ^ 32) = 2 ^ 32"
  using fl_representable [of "2 ^ 32" 0] by simp

lemma fl_two_m32: "fl (1 / 2 ^ 32) = 1 / 2 ^ 32"
  using fl_representable [of 1 "- 32"] by (simp add: power_int_minus field_simps)

lemma fl_two_m33: "fl (1 / 2 ^ 33) = 1 / 2 ^ 33"
  using fl_representable [of 1 "- 33"] by (simp add: power_int_minus field_simps)

lemma fl_below_one: "fl (1 - 1 / 2 ^ 33) = 1 - 1 / 2 ^ 33"
  using fl_representable [of "2 ^ 33 - 1" "- 33"] by (simp add: power_int_minus field_simps)

lemma fl_below_hundred: "fl ((1 - 1 / 2 ^ 33) * 100) = 100 - 25 / 2 ^ 31"
  using fl_representable [of "100 * 2 ^ 31 - 25" "- 31"] by (simp add: power_int_minus field_simps)

lemma fl_pos_value:
  assumes "2 powi e \<le> x" and "x < 2 powi (e + 1)" and "- 1022 \<le> e"
      and "round_even (x / 2 powi (e - 52)) = n"
  shows "fl_pos x = of_int n * 2 powi (e - 52)"
  using fl_pos_eval [OF assms(1-3)] assms(4) by simp

lemma fl_tenth_le_one: "fl 0.1 \<le> 1"
  using fl_mono [of "0.1" 1] by simp

lemma fl_08: "fl 0.8 = 3602879701896397 / 4503599627370496"
proof -
  have "fl_pos (4 / 5) = of_int 7205759403792794 * 2 powi (- 1 - 52)"
    by (rule fl_pos_value) (simp_all add: round_even_def power_int_minus)
  then show ?thesis
    by (simp add: fl_def power_int_minus)
qed

lemma fl_04: "fl 0.4 = 3602879701896397 / 9007199254740992"
proof -
  have "fl_pos (2 / 5) = of_int 7205759403792794 * 2 powi (- 2 - 52)"
    by (rule fl_pos_value) (simp_all add: round_even_def power_int_minus)
  then show ?thesis
    by (simp add: fl_def power_int_minus)
qed

lemma fl_top_product:
  "fl ((1 - 1 / 2 ^ 53) * (3602879701896397 / 9007199254740992)) =
     7205759403792793 / 18014398509481984"
proof -
  have "fl_pos ((1 - 1 / 2 ^ 53) * (3602879701896397 / 9007199254740992)) =
          of_int 7205759403792793 * 2 powi (- 2 - 52)"
    by (rule fl_pos_value) (simp_all add: round_even_def power_int_minus)
  then show ?thesis
    by (simp add: fl_def power_int_minus)
qed

lemma fl_top_sum:
  "fl (3602879701896397 / 4503599627370496 + 7205759403792793 / 18014398509481984) =
     5404319552844595 / 4503599627370496"
proof -
  have "fl_pos (3602879701896397 / 4503599627370496 + 7205759403792793 / 18014398509481984) =
          of_int 5404319552844595 * 2 powi (0 - 52)"
    by (rule fl_pos_value) (simp_all add: round_even_def power_int_minus)
  then show ?thesis
    by (simp add: fl_def power_int_minus)
qed

lemma fl_top_diff:
  "fl (1 - 5404319552844595 / 4503599627370496) = - (900719925474099 / 4503599627370496)"
proof -
  have "fl_pos (- (1 - 5404319552844595 / 4503599627370496)) =
          of_int 7205759403792792 * 2 powi (- 3 - 52)"
    by (rule fl_pos_value) (simp_all add: round_even_def power_int_minus)
  then show ?thesis
    by (simp add: fl_def power_int_minus)
qed

lemma fl_top_percent:
  "fl (- (900719925474099 / 4503599627370496) * 100) =
     - (5629499534213119 / 281474976710656)"
proof -
  have "fl_pos (- (- (900719925474099 / 4503599627370496) * 100)) =
          of_int 5629499534213119 * 2 powi (4 - 52)"
    by (rule fl_pos_value) (simp_all add: round_even_def power_int_minus)
  then show ?thesis
    by (simp add: fl_def power_int_minus)
qed

lemma fl_zero_diff:
  "fl (1 - 3602879701896397 / 4503599627370496) = 900719925474099 / 4503599627370496"
proof -
  have "fl_pos (1 - 3602879701896397 / 4503599627370496) =
          of_int 7205759403792792 * 2 powi (- 3 - 52)"
    by (rule fl_pos_value) (simp_all add: round_even_def power_int_minus)
  then show ?thesis
    by (simp add: fl_def power_int_minus)
qed

lemma fl_zero_percent:
  "fl (900719925474099 / 4503599627370496 * 100) = 5629499534213119 / 281474976710656"
proof -
  have "fl_pos (900719925474099 / 4503599627370496 * 100) =
          of_int 5629499534213119 * 2 powi (4 - 52)"
    by (rule fl_pos_value) (simp_all add: round_even_def power_int_minus)
  then show ?thesis
    by (simp add: fl_def power_int_minus)
qed

section \<open>The Benchmark Simulator in double precision\<close>

lemma improvementFactor64_same:
  "improvementFactor64 (estimateComplexity src) (estimateComplexity src) = 1"
proof -
  have "1 \<le> real (estimateComplexity src)"
    using estimateComplexity_ge_1 [of src] by simp
  then have "max (real (estimateComplexity src)) (fl 0.1) = real (estimateComplexity src)"
    using fl_tenth_le_one by simp
  then show ?thesis
    using \<open>1 \<le> real (estimateComplexity src)\<close>
    by (simp add: improvementFactor64_def fdiv_def)
qed

text \<open>The jitter factor \<^verbatim>\<open>0.8 + Math.random() * 0.4\<close> in doubles.\<close>

lemma jitter_range:
  assumes "0 \<le> U" and "U \<le> 1 - 1 / 2 ^ 53"
  shows "3602879701896397 / 4503599627370496 \<le> fadd (fl 0.8) (fmul U (fl 0.4))"
    and "fadd (fl 0.8) (fmul U (fl 0.4)) \<le> 5404319552844595 / 4503599627370496"
proof -
  have lo: "0 \<le> fl (U * (3602879701896397 / 9007199254740992))"
    using assms(1) by (intro fl_nonneg) simp
  have "U * (3602879701896397 / 9007199254740992)
      \<le> (1 - 1 / 2 ^ 53) * (3602879701896397 / 9007199254740992)"
    using assms(2) by (intro mult_right_mono) simp_all
  then have "fl (U * (3602879701896397 / 9007199254740992))
      \<le> fl ((1 - 1 / 2 ^ 53) * (3602879701896397 / 9007199254740992))"
    by (rule fl_mono)
  then have hi: "fl (U * (3602879701896397 / 9007199254740992))
      \<le> 7205759403792793 / 18014398509481984"
    unfolding fl_top_product .
  have "fl (fl 0.8) \<le> fl (3602879701896397 / 4503599627370496
            + fl (U * (3602879701896397 / 9007199254740992)))"
    unfolding fl_08 using lo by (intro fl_mono) simp
  then show "3602879701896397 / 4503599627370496 \<le> fadd (fl 0.8) (fmul U (fl 0.4))"
    unfolding fl_idem by (simp only: fadd_def fmul_def fl_08 fl_04)
  have "fl (3602879701896397 / 4503599627370496
            + fl (U * (3602879701896397 / 9007199254740992)))
      \<le> fl (3602879701896397 / 4503599627370496 + 7205759403792793 / 18014398509481984)"
    using hi by (intro fl_mono) simp
  then show "fadd (fl 0.8) (fmul U (fl 0.4)) \<le> 5404319552844595 / 4503599627370496"
    unfolding fl_top_sum by (simp only: fadd_def fmul_def fl_08 fl_04)
qed

lemma percentage_range:
  assumes "3602879701896397 / 4503599627370496 \<le> t"
      and "t \<le> 5404319552844595 / 4503599627370496"
  shows "- (5629499534213119 / 281474976710656) \<le> fmul (fsub 1 t) 100"
    and "fmul (fsub 1 t) 100 \<le> 5629499534213119 / 281474976710656"
proof -
  have "fl (1 - 5404319552844595 / 4503599627370496) \<le> fl (1 - t)"
    using assms(2) by (intro fl_mono) simp
  then have "- (900719925474099 / 4503599627370496) \<le> fl (1 - t)"
    unfolding fl_top_diff .
  then have "- (900719925474099 / 4503599627370496) * 100 \<le> fl (1 - t) * 100"
    by (intro mult_right_mono) simp_all
  then have "fl (- (900719925474099 / 4503599627370496) * 100) \<le> fl (fl (1 - t) * 100)"
    by (rule fl_mono)
  then show "- (5629499534213119 / 281474976710656) \<le> fmul (fsub 1 t) 100"
    unfolding fl_top_percent by (simp only: fmul_def fsub_def)
  have "fl (1 - t) \<le> fl (1 - 3602879701896397 / 4503599627370496)"
    using assms(1) by (intro fl_mono) simp
  then have "fl (1 - t) \<le> 900719925474099 / 4503599627370496"
    unfolding fl_zero_diff .
  then have "fl (1 - t) * 100 \<le> 900719925474099 / 4503599627370496 * 100"
    by (intro mult_right_mono) simp_all
  then have "fl (fl (1 - t) * 100) \<le> fl (900719925474099 / 4503599627370496 * 100)"
    by (rule fl_mono)
  then show "fmul (fsub 1 t) 100 \<le> 5629499534213119 / 281474976710656"
    unfolding fl_zero_percent by (simp only: fmul_def fsub_def)
qed

lemma benchmark_variant64_time:
  "execution_time_ms (fst (benchmark_variant64 orig iters variant w)) =
     fmul (fdiv 1 (improvementFactor64 (estimateComplexity orig)
                     (estimateComplexity (code variant))))
       (fadd (fl 0.8) (fmul (random_stream w (random_pos w)) (fl 0.4)))"
  by (simp add: benchmark_variant64_def Math_random_def Let_def)

lemma benchmark_variant64_percentage:
  "improvement_percentage (fst (benchmark_variant64 orig iters variant w)) =
     max (- 20)
       (fmul (fsub 1 (execution_time_ms (fst (benchmark_variant64 orig iters variant w)))) 100)"
  by (simp add: benchmark_variant64_def Math_random_def Let_def)

lemma benchmark_variant64_score:
  "variant_complexity_score (fst (benchmark_variant64 orig iters variant w)) =
     estimateComplexity (code variant)"
  by (simp add: benchmark_variant64_def Let_def split: prod.splits)

lemma fadd_idem: "fl (fadd x y) = fadd x y"
  by (simp add: fadd_def)

lemma jitter_error:
  assumes "0 \<le> U" and "U \<le> 1 - 1 / 2 ^ 53"
  shows "\<bar>fadd (fl 0.8) (fmul U (fl 0.4)) - (0.8 + 0.4 * U)\<bar> \<le> 1 / 2 ^ 52"
proof -
  define a where "a = fl (U * (3602879701896397 / 9007199254740992))"
  have a0: "0 \<le> a"
    unfolding a_def using assms(1) by (intro fl_nonneg) simp
  have "U * (3602879701896397 / 9007199254740992)
      \<le> (1 - 1 / 2 ^ 53) * (3602879701896397 / 9007199254740992)"
    using assms(2) by (intro mult_right_mono) simp_all
  then have "a \<le> fl ((1 - 1 / 2 ^ 53) * (3602879701896397 / 9007199254740992))"
    unfolding a_def by (rule fl_mono)
  then have a1: "a \<le> 7205759403792793 / 18014398509481984"
    unfolding fl_top_product .
  have "U * (3602879701896397 / 9007199254740992) < 2 powi (- 2 + 1)"
    using assms(1,2) by (simp add: power_int_minus)
  then have e1: "\<bar>a - U * (3602879701896397 / 9007199254740992)\<bar> \<le> 2 powi (- 2 - 53)"
    unfolding a_def using assms(1) by (intro fl_error) simp_all
  have "3602879701896397 / 4503599627370496 + a < 2 powi (0 + 1)"
    using a1 by simp
  then have e2: "\<bar>fl (3602879701896397 / 4503599627370496 + a)
                  - (3602879701896397 / 4503599627370496 + a)\<bar> \<le> 2 powi (0 - 53)"
    using a0 by (intro fl_error) simp_all
  have t: "fadd (fl 0.8) (fmul U (fl 0.4)) = fl (3602879701896397 / 4503599627370496 + a)"
    by (simp only: fadd_def fmul_def fl_08 fl_04 a_def)
  have e1': "\<bar>a - U * (3602879701896397 / 9007199254740992)\<bar> \<le> 1 / 36028797018963968"
    using e1 by (simp add: power_int_minus)
  have e2': "\<bar>fl (3602879701896397 / 4503599627370496 + a)
                  - (3602879701896397 / 4503599627370496 + a)\<bar> \<le> 1 / 9007199254740992"
    using e2 by (simp add: power_int_minus)
  have U1: "U \<le> 1" using assms(2) by simp
  define s where "s = fl (3602879701896397 / 4503599627370496 + a)"
  have "\<bar>s - (0.8 + 0.4 * U)\<bar> \<le> 1 / 4503599627370496"
    using e1' e2' assms(1) U1 unfolding s_def [symmetric] by linarith
  then show ?thesis
    unfolding t s_def by simp
qed

lemma benchmark_variants64_scores:
  "map variant_complexity_score (fst (benchmark_variants64 orig iters variants w)) =
     map (\<lambda>v. estimateComplexity (code v)) variants"
  by (induction variants arbitrary: w)
     (simp_all add: split_def Let_def benchmark_variant64_score)

lemma benchmark_variants64_length:
  "length (fst (benchmark_variants64 orig iters variants w)) = length variants"
  by (induction variants arbitrary: w) (simp_all add: split_def Let_def)

lemma benchmarkPerformance64_report:
  assumes "benchmarkPerformance64 request w = (Inr report, w')"
  shows "original_code_complexity report = estimateComplexity (original_code request)"
    and "variant_results report =
           fst (benchmark_variants64 (original_code request)
                 (case test_iterations request of None \<Rightarrow> 1000 | Some n \<Rightarrow> n)
                 (optimized_variants request) w)"
  using assms
  by (auto simp: benchmarkPerformance64_def Let_def split_def split: sum.splits)

lemma benchmarkPerformance64_returns:
  assumes "optimized_variants request \<noteq> []"
  shows "\<exists>report w'. benchmarkPerformance64 request w = (Inr report, w')"
proof -
  let ?rs = "fst (benchmark_variants64 (original_code request)
                 (case test_iterations request of None \<Rightarrow> 1000 | Some n \<Rightarrow> n)
                 (optimized_variants request) w)"
  have "length ?rs = length (optimized_variants request)"
    by (rule benchmark_variants64_length)
  with assms obtain r rs where rs: "?rs = r # rs"
    by (cases ?rs) auto
  then show ?thesis
    by (simp add: benchmarkPerformance64_def Let_def split_def reduce_no_initial_def)
qed

text \<open>
  C5, as the code has it. The baseline and the score of a variant that the benchmark
  divides to form the improvement factor are the values of its own estimate,
  \<open>1 + loop_count + 2 * nested_loops\<close>, on the loop counts the analyzer also computes.
  The estimate is the analyzer's complexity score plus one, less the recursion indicator,
  so the two agree exactly on the strings whose recursion indicator is 1. The factor, and
  with it the execution time, is formed from the estimates of the original and of the
  variant; the report gives the estimate of the original as its baseline and the estimate
  of each variant's code as that variant's score.
\<close>

theorem benchmark_scorer_vs_analyzer:
  "estimateComplexity src =
     1 + loop_count (performComplexityAnalysis src lang)
       + 2 * nested_loops (performComplexityAnalysis src lang)
   \<and> estimateComplexity src + recursive_calls (performComplexityAnalysis src lang) =
     complexity_score (performComplexityAnalysis src lang) + 1
   \<and> (estimateComplexity src = complexity_score (performComplexityAnalysis src lang))
       = (recursive_calls (performComplexityAnalysis src lang) = 1)
   \<and> improvementFactor64 (estimateComplexity orig) (estimateComplexity (code variant)) =
       fl (real (estimateComplexity orig) / max (real (estimateComplexity (code variant))) (fl 0.1))
   \<and> execution_time_ms (fst (benchmark_variant64 orig iters variant w)) =
       fmul (fdiv 1 (improvementFactor64 (estimateComplexity orig)
                       (estimateComplexity (code variant))))
         (fadd (fl 0.8) (fmul (random_stream w (random_pos w)) (fl 0.4)))
   \<and> variant_complexity_score (fst (benchmark_variant64 orig iters variant w)) =
       estimateComplexity (code variant)
   \<and> (\<forall>report w'.
         benchmarkPerformance64 request w = (Inr report, w') \<longrightarrow>
         original_code_complexity report = estimateComplexity (original_code request)
         \<and> map variant_complexity_score (variant_results report) =
             map (\<lambda>v. estimateComplexity (code v)) (optimized_variants request))"
proof -
  have a: "estimateComplexity src =
     1 + loop_count (performComplexityAnalysis src lang)
       + 2 * nested_loops (performComplexityAnalysis src lang)
   \<and> estimateComplexity src + recursive_calls (performComplexityAnalysis src lang) =
     complexity_score (performComplexityAnalysis src lang) + 1
   \<and> (estimateComplexity src = complexity_score (performComplexityAnalysis src lang))
       = (recursive_calls (performComplexityAnalysis src lang) = 1)"
    by (simp add: estimateComplexity_def performComplexityAnalysis_def Let_def)
  have b: "improvementFactor64 (estimateComplexity orig) (estimateComplexity (code variant)) =
       fl (real (estimateComplexity orig) / max (real (estimateComplexity (code variant))) (fl 0.1))"
    by (simp only: improvementFactor64_def fdiv_def)
  have c: "\<forall>report w'.
         benchmarkPerformance64 request w = (Inr report, w') \<longrightarrow>
         original_code_complexity report = estimateComplexity (original_code request)
         \<and> map variant_complexity_score (variant_results report) =
             map (\<lambda>v. estimateComplexity (code v)) (optimized_variants request)"
    using benchmarkPerformance64_report [of request w]
    by (auto simp: benchmark_variants64_scores)
  show ?thesis
    using a b c benchmark_variant64_time [of orig iters variant w]
      benchmark_variant64_score [of orig iters variant w]
    by blast
qed

theorem benchmark_scorer_vs_analyzer_witness:
  "\<exists>report w'.
     benchmarkPerformance64 two_request world0 = (Inr report, w')
     \<and> original_code_complexity report = 5
     \<and> map variant_complexity_score (variant_results report) = [5, 2]"
proof -
  have "optimized_variants two_request \<noteq> []"
    by (simp add: two_request_def)
  then obtain report w' where r: "benchmarkPerformance64 two_request world0 = (Inr report, w')"
    using benchmarkPerformance64_returns [of two_request world0] by blast
  from benchmark_scorer_vs_analyzer [where request = two_request and w = world0] r
  have "original_code_complexity report = estimateComplexity (original_code two_request)"
    and "map variant_complexity_score (variant_results report) =
             map (\<lambda>v. estimateComplexity (code v)) (optimized_variants two_request)"
    by blast+
  then have "original_code_complexity report = 5
     \<and> map variant_complexity_score (variant_results report) = [5, 2]"
    by (simp add: two_request_def empty_request_def same_variant_def flat_variant_def
        estimate_examples)
  with r show ?thesis
    by (intro exI [of _ report] exI [of _ w']) simp
qed

text \<open>
  C8. With one variant whose code is the original code, the improvement factor is
  exactly 1. For the draw \<open>U\<close> of \<^verbatim>\<open>Math.random\<close>, a Number with \<open>0 \<le> U < 1\<close>, the
  execution time is the value of \<^verbatim>\<open>0.8 + U * 0.4\<close> in double arithmetic, within
  \<open>1 / 2 ^ 52\<close> of the real number \<open>0.8 + 0.4 * U\<close>; the improvement percentage is more
  than \<open>-20\<close> and at most \<open>20\<close>; the report has this one result, which is also the best
  variant.
\<close>

theorem identical_variant_jitter_band:
  assumes "optimized_variants request = [variant]"
      and "code variant = original_code request"
      and "U = random_stream w (random_pos w)"
      and "0 \<le> U" and "U < 1" and "fl U = U"
  shows "improvementFactor64 (estimateComplexity (original_code request))
           (estimateComplexity (code variant)) = 1
       \<and> (\<exists>report r w'.
             benchmarkPerformance64 request w = (Inr report, w')
             \<and> variant_results report = [r]
             \<and> variant_name r = name variant
             \<and> execution_time_ms r = fadd (fl 0.8) (fmul U (fl 0.4))
             \<and> \<bar>execution_time_ms r - (0.8 + 0.4 * U)\<bar> \<le> 1 / 2 ^ 52
             \<and> improvement_percentage r = fmul (fsub 1 (execution_time_ms r)) 100
             \<and> - 20 < improvement_percentage r
             \<and> improvement_percentage r \<le> 20
             \<and> best_variant report = r)"
proof -
  let ?iters = "case test_iterations request of None \<Rightarrow> 1000 | Some n \<Rightarrow> n"
  let ?r = "fst (benchmark_variant64 (original_code request) ?iters variant w)"
  have top: "U \<le> 1 - 1 / 2 ^ 53"
    using assms(6,4,5) by (rule double_below_one)
  have f: "improvementFactor64 (estimateComplexity (original_code request))
           (estimateComplexity (code variant)) = 1"
    unfolding assms(2) by (rule improvementFactor64_same)
  have t: "execution_time_ms ?r = fadd (fl 0.8) (fmul U (fl 0.4))"
    unfolding benchmark_variant64_time f assms(3)
    by (simp add: fdiv_def fmul_def fadd_idem)
  have err: "\<bar>execution_time_ms ?r - (0.8 + 0.4 * U)\<bar> \<le> 1 / 2 ^ 52"
    unfolding t using assms(4) top by (rule jitter_error)
  have range: "3602879701896397 / 4503599627370496 \<le> execution_time_ms ?r"
      "execution_time_ms ?r \<le> 5404319552844595 / 4503599627370496"
    unfolding t using assms(4) top by (rule jitter_range)+
  have plo: "- (5629499534213119 / 281474976710656) \<le> fmul (fsub 1 (execution_time_ms ?r)) 100"
    and phi: "fmul (fsub 1 (execution_time_ms ?r)) 100 \<le> 5629499534213119 / 281474976710656"
    using range by (rule percentage_range)+
  have p: "improvement_percentage ?r = fmul (fsub 1 (execution_time_ms ?r)) 100"
    unfolding benchmark_variant64_percentage using plo by simp
  have b: "- 20 < improvement_percentage ?r \<and> improvement_percentage ?r \<le> 20"
    unfolding p using plo phi by simp
  have n: "variant_name ?r = name variant"
    by (simp add: benchmark_variant64_def Let_def split_def)
  have ex: "\<exists>report w'. benchmarkPerformance64 request w = (Inr report, w')
          \<and> variant_results report = [?r] \<and> best_variant report = ?r"
    using assms(1)
    by (simp add: benchmarkPerformance64_def Let_def split_def reduce_no_initial_def)
  show ?thesis
    using f t err p n b ex by blast
qed


theorem identical_variant_jitter_band_witness:
  "optimized_variants same_request = [same_variant]
   \<and> code same_variant = original_code same_request
   \<and> (0 :: real) = random_stream world_zero (random_pos world_zero)
   \<and> (0 :: real) \<le> 0 \<and> (0 :: real) < 1 \<and> fl 0 = 0
   \<and> (\<exists>report r w'.
         benchmarkPerformance64 same_request world_zero = (Inr report, w')
         \<and> variant_results report = [r]
         \<and> variant_name r = lit ''unchanged''
         \<and> execution_time_ms r = 3602879701896397 / 4503599627370496
         \<and> improvement_percentage r = 5629499534213119 / 281474976710656
         \<and> best_variant report = r)"
proof -
  have a: "optimized_variants same_request = [same_variant]"
    by (simp add: same_request_def)
  have b: "code same_variant = original_code same_request"
    by (simp add: same_request_def same_variant_def empty_request_def)
  have c: "(0 :: real) = random_stream world_zero (random_pos world_zero)"
    by (simp add: world_zero_def)
  have d: "(0 :: real) \<le> 0" and e: "(0 :: real) < 1" and f: "fl 0 = 0"
    by simp_all
  have n: "name same_variant = lit ''unchanged''"
    by (simp add: same_variant_def)
  have "fadd (fl 0.8) (fmul 0 (fl 0.4)) = fl (fl 0.8)"
    by (simp only: fadd_def fmul_def mult_zero_left fl_zero add_0_right)
  also have "\<dots> = fl 0.8"
    by (rule fl_idem)
  also have "\<dots> = 3602879701896397 / 4503599627370496"
    by (rule fl_08)
  finally have t: "fadd (fl 0.8) (fmul 0 (fl 0.4)) = 3602879701896397 / 4503599627370496" .
  have p: "fmul (fsub 1 (3602879701896397 / 4503599627370496)) 100 =
             5629499534213119 / 281474976710656"
    by (simp only: fmul_def fsub_def fl_zero_diff fl_zero_percent)
  from identical_variant_jitter_band [OF a b c d e f]
  obtain report r w' where ret: "benchmarkPerformance64 same_request world_zero = (Inr report, w')"
    and rs: "variant_results report = [r]"
    and rn: "variant_name r = name same_variant"
    and rt: "execution_time_ms r = fadd (fl 0.8) (fmul 0 (fl 0.4))"
    and rp: "improvement_percentage r = fmul (fsub 1 (execution_time_ms r)) 100"
    and best: "best_variant report = r"
    by blast
  have rt': "execution_time_ms r = 3602879701896397 / 4503599627370496"
    using rt t by (rule trans)
  have rp': "improvement_percentage r = 5629499534213119 / 281474976710656"
    using rp p unfolding rt' by (rule trans)
  have rn': "variant_name r = lit ''unchanged''"
    using rn n by (rule trans)
  have "\<exists>report r w'.
         benchmarkPerformance64 same_request world_zero = (Inr report, w')
         \<and> variant_results report = [r]
         \<and> variant_name r = lit ''unchanged''
         \<and> execution_time_ms r = 3602879701896397 / 4503599627370496
         \<and> improvement_percentage r = 5629499534213119 / 281474976710656
         \<and> best_variant report = r"
    using ret rs rn' rt' rp' best by blast
  then show ?thesis
    using a b c d e f by blast
qed

text \<open>With no variant the two versions of the handler do the same: both throw.\<close>

lemma benchmarkPerformance64_empty:
  "optimized_variants request = [] \<Longrightarrow>
   benchmarkPerformance64 request w = benchmarkPerformance request w"
  by (simp add: benchmarkPerformance64_def benchmarkPerformance_def reduce_no_initial_def)

text \<open>
  The range of the improvement percentage in double arithmetic, for strings of at most
  \<open>2 ^ 30\<close> code units (more than the engine of Node.js can hold): the execution time
  is then at least \<open>1 / 2 ^ 33\<close>, and the percentage stays below 100 after rounding.
\<close>

lemma match_count_le: "match_count re s \<le> Suc (length s)"
proof (induction re s rule: match_count.induct)
  case (1 re)
  then show ?case by (simp split: option.splits)
next
  case (2 re c cs)
  then show ?case by (auto split: option.splits)
qed

lemma estimateComplexity_le: "estimateComplexity src \<le> 4 + 3 * length src"
  using match_count_le [of loop_regex src] match_count_le [of nested_regex src]
  by (simp add: estimateComplexity_def Let_def)

lemma jitter_lower:
  assumes "0 \<le> U"
  shows "3602879701896397 / 4503599627370496 \<le> fadd (fl 0.8) (fmul U (fl 0.4))"
proof -
  have lo: "0 \<le> fl (U * (3602879701896397 / 9007199254740992))"
    using assms by (intro fl_nonneg) simp
  have "fl (fl 0.8) \<le> fl (3602879701896397 / 4503599627370496
            + fl (U * (3602879701896397 / 9007199254740992)))"
    unfolding fl_08 using lo by (intro fl_mono) simp
  then show ?thesis
    unfolding fl_idem by (simp only: fadd_def fmul_def fl_08 fl_04)
qed

lemma improvementFactor64_range:
  assumes a1: "1 \<le> real a" and a2: "real a \<le> 2 ^ 32"
      and b1: "1 \<le> real b" and b2: "real b \<le> 2 ^ 32"
  shows "1 / 2 ^ 32 \<le> improvementFactor64 a b" and "improvementFactor64 a b \<le> 2 ^ 32"
proof -
  have m: "max (real b) (fl 0.1) = real b"
    using b1 fl_tenth_le_one by simp
  have "1 / 2 ^ 32 \<le> 1 / real b"
    using b1 b2 by (simp add: field_simps)
  also have "\<dots> \<le> real a / real b"
    using a1 b1 by (simp add: field_simps)
  finally have "fl (1 / 2 ^ 32) \<le> fl (real a / real b)"
    by (rule fl_mono)
  then show "1 / 2 ^ 32 \<le> improvementFactor64 a b"
    unfolding fl_two_m32 by (simp add: improvementFactor64_def fdiv_def m)
  have "real a / real b \<le> real a"
    using a1 b1 by (simp add: field_simps)
  also have "\<dots> \<le> 2 ^ 32"
    by (rule a2)
  finally have "fl (real a / real b) \<le> fl (2 ^ 32)"
    by (rule fl_mono)
  then show "improvementFactor64 a b \<le> 2 ^ 32"
    unfolding fl_two_32 by (simp add: improvementFactor64_def fdiv_def m)
qed

lemma benchmark_variant64_bounds:
  assumes "0 \<le> random_stream w (random_pos w)"
      and "length orig \<le> 2 ^ 30" and "length (code variant) \<le> 2 ^ 30"
  shows "- 20 \<le> improvement_percentage (fst (benchmark_variant64 orig iters variant w))
       \<and> improvement_percentage (fst (benchmark_variant64 orig iters variant w)) < 100"
proof -
  define F where "F = improvementFactor64 (estimateComplexity orig)
                        (estimateComplexity (code variant))"
  define j where "j = fadd (fl 0.8) (fmul (random_stream w (random_pos w)) (fl 0.4))"
  define t where "t = execution_time_ms (fst (benchmark_variant64 orig iters variant w))"
  have "estimateComplexity orig \<le> 4294967296"
    using estimateComplexity_le [of orig] assms(2) by simp
  then have "real (estimateComplexity orig) \<le> real 4294967296"
    by (rule of_nat_mono)
  then have ea: "real (estimateComplexity orig) \<le> 2 ^ 32"
    by simp
  have "estimateComplexity (code variant) \<le> 4294967296"
    using estimateComplexity_le [of "code variant"] assms(3) by simp
  then have "real (estimateComplexity (code variant)) \<le> real 4294967296"
    by (rule of_nat_mono)
  then have eb: "real (estimateComplexity (code variant)) \<le> 2 ^ 32"
    by simp
  have a1: "1 \<le> real (estimateComplexity orig)"
    using estimateComplexity_ge_1 [of orig] by simp
  have b1: "1 \<le> real (estimateComplexity (code variant))"
    using estimateComplexity_ge_1 [of "code variant"] by simp
  have F1: "1 / 2 ^ 32 \<le> F" and F2: "F \<le> 2 ^ 32"
    unfolding F_def using a1 ea b1 eb by (rule improvementFactor64_range)+
  have Fpos: "0 < F"
    using F1 by (smt (verit) divide_pos_pos zero_less_numeral zero_less_one zero_less_power)
  have "1 / 2 ^ 32 \<le> 1 / F"
    using F2 Fpos by (simp add: field_simps)
  then have "fl (1 / 2 ^ 32) \<le> fl (1 / F)"
    by (rule fl_mono)
  then have G: "1 / 2 ^ 32 \<le> fdiv 1 F"
    unfolding fl_two_m32 by (simp add: fdiv_def)
  have J: "1 / 2 \<le> j"
    unfolding j_def using jitter_lower [OF assms(1)] by simp
  have "1 / 2 ^ 32 * (1 / 2) \<le> fdiv 1 F * j"
    using G J by (intro mult_mono) simp_all
  then have "fl (1 / 2 ^ 33) \<le> fl (fdiv 1 F * j)"
    by (intro fl_mono) simp
  then have T: "1 / 2 ^ 33 \<le> t"
    unfolding fl_two_m33 t_def benchmark_variant64_time
    by (simp add: fmul_def F_def j_def)
  have "fl (1 - t) \<le> fl (1 - 1 / 2 ^ 33)"
    using T by (intro fl_mono) simp
  then have "fl (1 - t) * 100 \<le> (1 - 1 / 2 ^ 33) * 100"
    unfolding fl_below_one by simp
  then have "fl (fl (1 - t) * 100) \<le> fl ((1 - 1 / 2 ^ 33) * 100)"
    by (rule fl_mono)
  then have "fmul (fsub 1 t) 100 < 100"
    unfolding fl_below_hundred by (simp add: fmul_def fsub_def)
  then show ?thesis
    unfolding benchmark_variant64_percentage t_def [symmetric] by simp
qed

section \<open>The Pattern Detector: the handler\<close>

lemma set_sort_by_score_desc: "set (sort_by_score_desc ps) = set ps"
  by (simp add: sort_by_score_desc_def)

lemma map_insort_key_comp:
  "map f (insort_key (\<lambda>x. k (f x)) a xs) = insort_key k (f a) (map f xs)"
  by (induction xs) simp_all

lemma map_sort_key_comp: "map f (sort_key (\<lambda>x. k (f x)) xs) = sort_key k (map f xs)"
  by (induction xs) (simp_all add: map_insort_key_comp)

lemma map_filter_comp: "map f (filter (\<lambda>x. Q (f x)) xs) = filter Q (map f xs)"
  by (induction xs) simp_all

lemma pattern_result_score:
  "applicability_score (pattern_result snippet lang pattern) =
     score (assessPatternApplicability snippet pattern lang)"
  by (simp add: pattern_result_def Let_def)

lemma detected_scores:
  assumes "detectOptimizationPatterns request w = (Inr report, w')"
  shows "map applicability_score (detected_patterns report) =
           sort_key uminus
             (filter (\<lambda>s. 0.3 < s)
                (map (\<lambda>p. score (assessPatternApplicability (code_snippet request) p
                                   (language request)))
                   (case pattern_types request of
                      None \<Rightarrow> default_pattern_types | Some ps \<Rightarrow> ps)))"
proof -
  have "map applicability_score (detected_patterns report) =
          map applicability_score (sort_by_score_desc
            (filter (\<lambda>p. 0.3 < applicability_score p)
               (map (pattern_result (code_snippet request) (language request))
                  (case pattern_types request of
                      None \<Rightarrow> default_pattern_types | Some ps \<Rightarrow> ps))))"
    using assms by (auto simp: detectOptimizationPatterns_def Let_def)
  also have "\<dots> =
      sort_key uminus
        (map applicability_score
           (filter (\<lambda>p. 0.3 < applicability_score p)
              (map (pattern_result (code_snippet request) (language request))
                 (case pattern_types request of
                    None \<Rightarrow> default_pattern_types | Some ps \<Rightarrow> ps))))"
    unfolding sort_by_score_desc_def
    by (rule map_sort_key_comp [where k = uminus])
  also have "\<dots> =
      sort_key uminus
        (filter (\<lambda>s. 0.3 < s)
           (map applicability_score
              (map (pattern_result (code_snippet request) (language request))
                 (case pattern_types request of
                    None \<Rightarrow> default_pattern_types | Some ps \<Rightarrow> ps))))"
    by (simp only: map_filter_comp [where Q = "\<lambda>s. 0.3 < s"])
  finally show ?thesis
    by (simp add: pattern_result_score comp_def)
qed

lemma example_scores:
  "score (assessPatternApplicability (lit ''return memo[n] || xs.indexOf(n)'')
            (lit ''dynamic_programming'') lang) = 0.8"
  "score (assessPatternApplicability (lit ''return memo[n] || xs.indexOf(n)'')
            (lit ''caching'') lang) = 0.9"
  "score (assessPatternApplicability (lit ''return memo[n] || xs.indexOf(n)'')
            (lit ''two_pointers'') lang) = 0.5"
  "score (assessPatternApplicability (lit ''return memo[n] || xs.indexOf(n)'')
            (lit ''sliding_window'') lang) = 0.5"
  "score (assessPatternApplicability (lit ''return memo[n] || xs.indexOf(n)'')
            (lit ''hash_maps'') lang) = 0.5"
  by (simp_all add: assessPatternApplicability_def lit_def)

text \<open>
  C7. For every snippet and every list of pattern names, requested or defaulted, the
  handler returns a report, and every result under \<^verbatim>\<open>detected_patterns\<close> has an
  applicability score above 0.3.
\<close>

theorem detected_patterns_above_threshold:
  "\<exists>report. detectOptimizationPatterns request w = (Inr report, w)
     \<and> (\<forall>p \<in> set (detected_patterns report). 0.3 < applicability_score p)"
  by (simp add: detectOptimizationPatterns_def Let_def set_sort_by_score_desc)

theorem detected_patterns_above_threshold_witness:
  "\<exists>report. detectOptimizationPatterns pattern_request world0 = (Inr report, world0)
     \<and> map applicability_score (detected_patterns report) = [0.9, 0.8, 0.5, 0.5, 0.5]
     \<and> list_all (\<lambda>p. 0.3 < applicability_score p) (detected_patterns report)"
proof -
  from detected_patterns_above_threshold [of pattern_request world0]
  obtain report where r: "detectOptimizationPatterns pattern_request world0 = (Inr report, world0)"
    and above: "\<forall>p \<in> set (detected_patterns report). 0.3 < applicability_score p"
    by blast
  have "map applicability_score (detected_patterns report) = [0.9, 0.8, 0.5, 0.5, 0.5]"
    unfolding detected_scores [OF r]
    by (simp add: pattern_request_def default_pattern_types_def example_scores)
  with r above show ?thesis
    by (auto simp: list_all_iff)
qed

end
